(* ===== verification/Prelude.thy ===== *)
theory Prelude
  imports Main "HOL-Library.Sublist"
begin

text \<open>
  Shared vocabulary of the development: the names of the model's basic types, the
  rule collections the component theories extend, and generic facts about lists,
  prefixes and infixes (\<open>sublist\<close>) of strings that the string primitives of
  \<open>PyStr\<close> and the components above them rely on.
\<close>

named_theorems py_simps
  "evaluation rules of the Python-level primitives, for unfolding a model on a concrete input"

named_theorems world_simps
  "frame rules: what an operation of the data-access layer leaves unchanged"

type_synonym path = string
type_synonym env = "string \<rightharpoonup> string"

subsection \<open>Prefixes as \<open>take\<close>\<close>

lemma prefix_take_conv: "prefix p s \<longleftrightarrow> take (length p) s = p"
proof
  assume "prefix p s"
  then show "take (length p) s = p" by (auto simp: prefix_def)
next
  assume "take (length p) s = p"
  then show "prefix p s" by (metis take_is_prefix)
qed

lemma take_replicate_conv:
  "take n s = replicate n c \<longleftrightarrow> n \<le> length (takeWhile ((=) c) s)"
proof (induction s arbitrary: n)
  case Nil
  then show ?case by (cases n) auto
next
  case (Cons d s)
  then show ?case by (cases n) auto
qed

lemma prefix_replicate_conv:
  "prefix (replicate n c) s \<longleftrightarrow> n \<le> length (takeWhile ((=) c) s)"
  by (simp add: prefix_take_conv take_replicate_conv)

subsection \<open>Infixes\<close>

lemma sublist_ConsI [intro]: "sublist p cs \<Longrightarrow> sublist p (d # cs)"
  by (simp add: sublist_Cons_right)

lemma sublist_trans_not:
  "sublist t s \<Longrightarrow> \<not> sublist p s \<Longrightarrow> \<not> sublist p t"
  by (meson sublist_order.order.trans)

lemma sublist_rev_dropWhile [intro]: "sublist (rev (dropWhile P (rev s))) s"
  by (metis sublist_dropWhile sublist_rev_left)

end
