(* ===== verification/PyStr.thy ===== *)
theory PyStr
  imports Prelude
begin

text \<open>
  The Python \<open>str\<close> operations the repository's code calls, as executable HOL
  functions on \<open>string\<close> (a list of 8-bit characters: the model is faithful on ASCII
  text; Unicode case folding and Unicode whitespace are not modelled).
  \<^item> \<open>py_isspace\<close>, \<open>py_strip\<close>: \<open>str.isspace\<close> on ASCII and \<open>str.strip()\<close>;
  \<^item> \<open>py_startswith\<close>, \<open>py_endswith\<close>, \<open>py_in\<close>: \<open>startswith\<close>, \<open>endswith\<close>, \<open>in\<close>;
  \<^item> \<open>py_lower\<close>: \<open>str.lower()\<close> on ASCII;
  \<^item> \<open>py_replace\<close>: \<open>str.replace(old, new)\<close>, leftmost non-overlapping replacement;
  \<^item> \<open>find_idx\<close>, \<open>py_find\<close>, \<open>py_rfind\<close>, \<open>py_partition\<close>, \<open>py_rpartition\<close>.
  The lemmas give the characteristic facts: \<open>strip\<close> yields an infix and is idempotent,
  \<open>replace\<close> with an empty replacement removes every run of its pattern character and is
  the identity on strings without the pattern, \<open>partition\<close> splits its input.
\<close>

subsection \<open>Characters and truthiness\<close>

definition py_isspace :: "char \<Rightarrow> bool" where
  "py_isspace c \<longleftrightarrow> (let n = of_char c :: nat in (9 \<le> n \<and> n \<le> 13) \<or> (28 \<le> n \<and> n \<le> 32))"

definition py_lower_char :: "char \<Rightarrow> char" where
  "py_lower_char c = (let n = of_char c :: nat in if 65 \<le> n \<and> n \<le> 90 then char_of (n + 32) else c)"

definition py_lower :: "string \<Rightarrow> string" where
  "py_lower s = map py_lower_char s"

text \<open>A Python value that is \<open>None\<close> or a string: falsy when \<open>None\<close> or empty.\<close>

definition py_truthy :: "string option \<Rightarrow> bool" where
  "py_truthy x \<longleftrightarrow> (case x of None \<Rightarrow> False | Some s \<Rightarrow> s \<noteq> [])"

subsection \<open>Tests\<close>

definition py_startswith :: "string \<Rightarrow> string \<Rightarrow> bool" where
  "py_startswith s p \<longleftrightarrow> take (length p) s = p"

definition py_endswith :: "string \<Rightarrow> string \<Rightarrow> bool" where
  "py_endswith s p \<longleftrightarrow> length p \<le> length s \<and> drop (length s - length p) s = p"

definition py_in :: "string \<Rightarrow> string \<Rightarrow> bool" where
  "py_in p s \<longleftrightarrow> sublist p s"

subsection \<open>\<open>str.strip()\<close>\<close>

definition py_strip :: "string \<Rightarrow> string" where
  "py_strip s = rev (dropWhile py_isspace (rev (dropWhile py_isspace s)))"

subsection \<open>\<open>str.replace(old, new)\<close>\<close>

text \<open>
  CPython scans left to right; at each position where \<open>old\<close> starts it emits
  \<open>new\<close> and resumes after the match, otherwise it copies one character. An empty
  \<open>old\<close> inserts \<open>new\<close> before every character and at the end.
\<close>

fun replace_scan :: "string \<Rightarrow> string \<Rightarrow> string \<Rightarrow> string" where
  "replace_scan old new [] = []"
| "replace_scan old new (c # cs) =
     (if old \<noteq> [] \<and> py_startswith (c # cs) old
      then new @ replace_scan old new (drop (length old) (c # cs))
      else c # replace_scan old new cs)"

definition py_replace :: "string \<Rightarrow> string \<Rightarrow> string \<Rightarrow> string" where
  "py_replace s old new =
     (if old = [] then new @ concat (map (\<lambda>c. c # new) s) else replace_scan old new s)"

subsection \<open>Searching and splitting\<close>

primrec find_idx :: "string \<Rightarrow> string \<Rightarrow> nat option" where
  "find_idx sub [] = (if sub = [] then Some 0 else None)"
| "find_idx sub (c # cs) =
     (if py_startswith (c # cs) sub then Some 0 else map_option Suc (find_idx sub cs))"

text \<open>\<open>s.find(sub, start)\<close>, with \<open>None\<close> for Python's \<open>-1\<close>.\<close>

definition py_find :: "string \<Rightarrow> string \<Rightarrow> nat \<Rightarrow> nat option" where
  "py_find s sub start =
     (if length s < start then None else map_option ((+) start) (find_idx sub (drop start s)))"

definition py_rfind :: "string \<Rightarrow> string \<Rightarrow> nat option" where
  "py_rfind s sub =
     map_option (\<lambda>k. length s - k - length sub) (find_idx (rev sub) (rev s))"

text \<open>
  \<open>s.partition(sep)\<close> and \<open>s.rpartition(sep)\<close> for a non-empty separator (every
  call site passes a non-empty literal): the part before, the separator or \<open>''''\<close>
  when absent, and the part after.
\<close>

definition py_partition :: "string \<Rightarrow> string \<Rightarrow> string \<times> string \<times> string" where
  "py_partition s sep =
     (case find_idx sep s of
        None \<Rightarrow> (s, [], [])
      | Some k \<Rightarrow> (take k s, sep, drop (k + length sep) s))"

definition py_rpartition :: "string \<Rightarrow> string \<Rightarrow> string \<times> string \<times> string" where
  "py_rpartition s sep =
     (case py_rfind s sep of
        None \<Rightarrow> ([], [], s)
      | Some k \<Rightarrow> (take k s, sep, drop (k + length sep) s))"

text \<open>\<open>sep.join(ss)\<close> on a list of strings.\<close>

fun py_str_join :: "string \<Rightarrow> string list \<Rightarrow> string" where
  "py_str_join sep [] = []"
| "py_str_join sep [s] = s"
| "py_str_join sep (s # t # ss) = s @ sep @ py_str_join sep (t # ss)"

lemmas py_str_defs [py_simps] =
  py_isspace_def py_lower_char_def py_lower_def py_truthy_def py_startswith_def
  py_endswith_def py_in_def py_strip_def py_replace_def py_find_def py_rfind_def
  py_partition_def py_rpartition_def

subsection \<open>Facts about the primitives\<close>

text \<open>The length of the run of \<open>c\<close> a string starts with.\<close>

abbreviation lead :: "char \<Rightarrow> string \<Rightarrow> nat" where
  "lead c s \<equiv> length (takeWhile ((=) c) s)"

lemma py_startswith_prefix: "py_startswith s p \<longleftrightarrow> prefix p s"
  by (simp add: py_startswith_def prefix_take_conv)

lemma replace_scan_lead_small:
  "old = replicate n c \<Longrightarrow> 0 < n \<Longrightarrow> new = [] \<Longrightarrow> lead c s < n \<Longrightarrow>
   lead c (replace_scan old new s) = lead c s"
proof (induction old new s rule: replace_scan.induct)
  case (1 old new)
  then show ?case by simp
next
  case (2 old new d cs)
  have np: "\<not> py_startswith (d # cs) old"
    using "2.prems" by (simp add: py_startswith_prefix prefix_replicate_conv)
  show ?case
  proof (cases "d = c")
    case True
    with "2.prems" have "lead c cs < n" by simp
    with "2.IH"(2) np "2.prems" True show ?thesis by simp
  next
    case False
    with np show ?thesis by simp
  qed
qed

lemma replace_scan_no_run:
  "old = replicate n c \<Longrightarrow> 0 < n \<Longrightarrow> new = [] \<Longrightarrow> \<not> sublist old (replace_scan old new s)"
proof (induction old new s rule: replace_scan.induct)
  case (1 old new)
  then show ?case by simp
next
  case (2 old new d cs)
  show ?case
  proof (cases "py_startswith (d # cs) old")
    case True
    with "2.IH"(1) "2.prems" show ?thesis by simp
  next
    case np: False
    with "2.prems" have short: "lead c (d # cs) < n"
      by (simp add: py_startswith_prefix prefix_replicate_conv)
    have "\<not> prefix old (d # replace_scan old new cs)"
    proof (cases "d = c")
      case True
      with short have "lead c cs < n" by simp
      with "2.prems" have "lead c (replace_scan old new cs) = lead c cs"
        by (intro replace_scan_lead_small)
      with True short "2.prems" show ?thesis by (simp add: prefix_replicate_conv)
    next
      case False
      with "2.prems" show ?thesis by (simp add: prefix_replicate_conv)
    qed
    with "2.IH"(2) np "2.prems" show ?thesis
      by (simp add: sublist_Cons_right)
  qed
qed

lemma replace_scan_absent:
  "old \<noteq> [] \<Longrightarrow> \<not> sublist old s \<Longrightarrow> replace_scan old new s = s"
proof (induction old new s rule: replace_scan.induct)
  case (1 old new)
  then show ?case by simp
next
  case (2 old new c cs)
  then have "\<not> py_startswith (c # cs) old"
    by (auto simp: py_startswith_prefix)
  with 2 show ?case by auto
qed

lemma py_replace_absent:
  "old \<noteq> [] \<Longrightarrow> \<not> py_in old s \<Longrightarrow> py_replace s old new = s"
  by (simp add: py_replace_def py_in_def replace_scan_absent)

lemma py_replace_removes_run:
  "0 < n \<Longrightarrow> \<not> py_in (replicate n c) (py_replace s (replicate n c) [])"
  by (simp add: py_replace_def py_in_def replace_scan_no_run)

lemma py_strip_sublist: "sublist (py_strip s) s"
  unfolding py_strip_def
  by (meson sublist_dropWhile sublist_order.order.trans sublist_rev_dropWhile)

lemma dropWhile_idem: "dropWhile P (dropWhile P s) = dropWhile P s"
  by (induction s) auto

lemma dropWhile_trim_end:
  assumes "t = [] \<or> \<not> P (hd t)"
  shows "dropWhile P (rev (dropWhile P (rev t))) = rev (dropWhile P (rev t))"
proof -
  let ?u = "rev (dropWhile P (rev t))"
  have split: "t = ?u @ rev (takeWhile P (rev t))"
    by (metis rev_append rev_rev_ident takeWhile_dropWhile_id)
  show ?thesis
  proof (cases ?u)
    case Nil
    show ?thesis by (simp only: Nil) simp
  next
    case (Cons x xs)
    with split have "hd t = x" by (metis append_Cons list.sel(1))
    with assms Cons split have "\<not> P x" by auto
    with Cons show ?thesis by simp
  qed
qed

lemma dropWhile_hd: "dropWhile P s = [] \<or> \<not> P (hd (dropWhile P s))"
  using hd_dropWhile by blast

lemma py_strip_idem: "py_strip (py_strip s) = py_strip s"
  unfolding py_strip_def
  by (simp add: dropWhile_trim_end [OF dropWhile_hd] dropWhile_idem)

lemma take_length_eq_le: "take (length p) s = p \<Longrightarrow> length p \<le> length s"
  by (metis length_take min.cobounded1)

lemma find_idx_Some:
  "find_idx sub s = Some k \<Longrightarrow> k + length sub \<le> length s \<and> take (length sub) (drop k s) = sub"
proof (induction s arbitrary: k)
  case Nil
  then show ?case by (simp split: if_splits)
next
  case (Cons c cs)
  then show ?case
    by (cases "py_startswith (c # cs) sub")
       (auto simp: py_startswith_def dest: take_length_eq_le)
qed

lemma find_idx_None: "find_idx sub s = None \<longleftrightarrow> \<not> sublist sub s"
proof (induction s)
  case Nil
  then show ?case by simp
next
  case (Cons c cs)
  then show ?case
    by (simp add: sublist_Cons_right py_startswith_def prefix_take_conv)
qed

lemma take_drop_split:
  "take (length m) (drop k s) = m \<Longrightarrow> take k s @ m @ drop (k + length m) s = s"
  by (metis append_take_drop_id drop_drop add.commute)

lemma py_partition_parts:
  "py_partition s sep = (a, m, b) \<Longrightarrow> a @ m @ b = s"
  by (auto simp: py_partition_def take_drop_split dest!: find_idx_Some split: option.splits)

lemma py_rfind_Some:
  assumes "py_rfind s sub = Some k"
  shows "take (length sub) (drop k s) = sub"
proof -
  from assms obtain j where j: "find_idx (rev sub) (rev s) = Some j"
    and k: "k = length s - j - length sub"
    by (auto simp: py_rfind_def)
  from find_idx_Some [OF j] have le: "j + length sub \<le> length s"
    and eq: "take (length sub) (drop j (rev s)) = rev sub" by auto
  have "rev (take (length sub) (drop j (rev s))) = take (length sub) (drop k s)"
    using le k by (simp add: rev_take rev_drop drop_take min_def algebra_simps)
  with eq show ?thesis by simp
qed

lemma py_rpartition_parts:
  "py_rpartition s sep = (a, m, b) \<Longrightarrow> a @ m @ b = s"
  by (auto simp: py_rpartition_def take_drop_split dest!: py_rfind_Some split: option.splits)

subsection \<open>Single-character separators\<close>

lemma find_idx_char:
  "find_idx [c] s = (if c \<in> set s then Some (length (takeWhile (\<lambda>x. x \<noteq> c) s)) else None)"
  by (induction s) (auto simp: py_startswith_def)

lemma py_partition_char:
  "py_partition s [c] =
     (if c \<in> set s then (takeWhile (\<lambda>x. x \<noteq> c) s, [c], tl (dropWhile (\<lambda>x. x \<noteq> c) s))
      else (s, [], []))"
proof -
  let ?P = "\<lambda>x. x \<noteq> c"
  have t: "take (length (takeWhile ?P s)) s = takeWhile ?P s"
    by (metis takeWhile_eq_take)
  have d: "drop (length (takeWhile ?P s) + 1) s = tl (dropWhile ?P s)"
    by (metis dropWhile_eq_drop drop_Suc Suc_eq_plus1 tl_drop)
  show ?thesis
    using t d by (simp add: py_partition_def find_idx_char)
qed

lemma py_partition_split:
  "c \<notin> set a \<Longrightarrow> py_partition (a @ c # b) [c] = (a, [c], b)"
proof -
  assume a: "c \<notin> set a"
  then have "takeWhile (\<lambda>x. x \<noteq> c) (a @ c # b) = a" "dropWhile (\<lambda>x. x \<noteq> c) (a @ c # b) = c # b"
    by (auto simp: takeWhile_tail dropWhile_append)
  then show ?thesis by (simp add: py_partition_char)
qed

lemma py_partition_absent: "c \<notin> set s \<Longrightarrow> py_partition s [c] = (s, [], [])"
  by (simp add: py_partition_char)

lemma py_rpartition_split:
  "c \<notin> set b \<Longrightarrow> py_rpartition (a @ c # b) [c] = (a, [c], b)"
proof -
  assume b: "c \<notin> set b"
  then have "takeWhile (\<lambda>x. x \<noteq> c) (rev b @ c # rev a) = rev b"
    by (auto simp: takeWhile_tail)
  then have "find_idx [c] (rev (a @ c # b)) = Some (length b)"
    by (simp add: find_idx_char)
  then show ?thesis
    by (simp add: py_rpartition_def py_rfind_def)
qed

lemma py_rpartition_absent: "c \<notin> set s \<Longrightarrow> py_rpartition s [c] = ([], [], s)"
  by (simp add: py_rpartition_def py_rfind_def find_idx_char)

lemma py_find_split:
  "c \<notin> set a \<Longrightarrow> py_find (pre @ a @ c # b) [c] (length pre) = Some (length pre + length a)"
proof -
  assume "c \<notin> set a"
  then have "takeWhile (\<lambda>x. x \<noteq> c) (a @ c # b) = a" by (auto simp: takeWhile_tail)
  then show ?thesis by (simp add: py_find_def find_idx_char)
qed

lemma py_find_absent:
  "c \<notin> set s \<Longrightarrow> py_find (pre @ s) [c] (length pre) = None"
  by (simp add: py_find_def find_idx_char)

lemma py_in_char: "py_in [c] s \<longleftrightarrow> c \<in> set s"
  unfolding py_in_def by (induction s) (auto simp: sublist_Cons_right)

lemma list_all_not_in: "list_all P s \<Longrightarrow> \<not> P c \<Longrightarrow> c \<notin> set s"
  by (auto simp: list_all_iff)

end
