(* ===== verification/Backend.thy ===== *)
theory Backend
  imports PyStr
begin

text \<open>
  The data model shared by the components: the values the drivers return, relational
  tables and databases, MongoDB documents, files on the local disk, the connection
  handles \<open>connect_to_database\<close> returns (a tagged union over the four backends), the
  exceptions the code raises or catches, the messages Streamlit shows, and the world
  state the operations thread through. The external collaborators (the SQL engines,
  \<open>pandas.read_csv\<close>, Python's \<open>eval\<close>, the MongoDB server's query matcher, the LLM)
  are the fields of the record \<open>ext\<close>: every operation takes them as a parameter and
  every theorem holds for all of them.
\<close>

subsection \<open>Values, tables, documents\<close>

datatype dbval =
    VNull
  | VBool bool
  | VInt int
  | VStr string
  | VList "dbval list"
  | VDoc "(string \<times> dbval) list"
  | VOid nat  \<comment> \<open>a MongoDB \<open>ObjectId\<close>\<close>

text \<open>A relational table: its columns in order, its rows, and the index of its primary-key column.\<close>

record table =
  tcols :: "string list"
  trows :: "dbval list list"
  tpk :: "nat option"

type_synonym sql_db = "string \<rightharpoonup> table"
type_synonym doc = "(string \<times> dbval) list"
type_synonym mongo_db = "string \<rightharpoonup> doc list"
type_synonym mongo_server = "string \<rightharpoonup> mongo_db"

text \<open>A parsed CSV file, as \<open>pandas.read_csv\<close> returns it: header and data rows.\<close>

type_synonym csv = "string list \<times> dbval list list"

text \<open>A file on the local disk: an SQLite database or any other byte content.\<close>

datatype disk_file = SqliteFile sql_db | DataFile string

text \<open>
  The file system resolves a relative path segment by segment: empty and \<open>.\<close>
  segments are skipped, \<open>..\<close> goes up one directory (above the working directory when
  there is none to leave). Files are stored under the resolved path, so that
  \<open>database_files/../database.db\<close> and \<open>database.db\<close> are the same file.
\<close>

fun path_segs :: "path \<Rightarrow> string list" where
  "path_segs [] = [[]]"
| "path_segs (c # cs) =
     (if c = CHR ''/'' then [] # path_segs cs
      else case path_segs cs of [] \<Rightarrow> [[c]] | s # ss \<Rightarrow> (c # s) # ss)"

fun resolve_segs :: "string list \<Rightarrow> string list \<Rightarrow> string list" where
  "resolve_segs acc [] = rev acc"
| "resolve_segs acc (s # ss) =
     (if s = [] \<or> s = ''.'' then resolve_segs acc ss
      else if s = ''..'' \<and> acc \<noteq> [] \<and> hd acc \<noteq> ''..'' then resolve_segs (tl acc) ss
      else resolve_segs (s # acc) ss)"

definition norm_path :: "path \<Rightarrow> path" where
  "norm_path p = py_str_join ''/'' (resolve_segs [] (path_segs p))"

subsection \<open>Connection handles\<close>

record conn_params =
  p_host :: "string option"
  p_user :: "string option"
  p_password :: "string option"
  p_database :: "string option"

datatype sql_vendor = VMySQL | VPostgres

text \<open>
  The four driver objects of the source: \<open>sqlite3.Connection\<close> (on a file path),
  \<open>mysql.connector\<close>'s \<open>MySQLConnection\<close> and \<open>psycopg2\<close>'s \<open>connection\<close> (with the
  parameters they were opened with and whether they are still open), and
  \<open>pymongo.MongoClient\<close> (the server it addresses and the URI's default database).
\<close>

datatype handle =
    SqliteConn path
  | MySQLConn conn_params bool
  | PgConn conn_params bool
  | MongoConn string "string option"

subsection \<open>Exceptions and messages\<close>

datatype exc =
    ValueError string
  | DriverError string
  | FileNotFound path
  | IntegrityError
  | OperationalError string
  | ConfigurationError
  | InvalidOperation string
  | TypeError string
  | AttributeError string
  | EvalError string
  | IndexError string
  | DatabaseError string
  | SystemExit

text \<open>\<open>except Exception\<close> catches every exception but \<open>SystemExit\<close>, which derives from
  \<open>BaseException\<close> only (\<open>exit()\<close> and \<open>sys.exit()\<close> raise it).\<close>

definition is_exception :: "exc \<Rightarrow> bool" where
  "is_exception e \<longleftrightarrow> e \<noteq> SystemExit"

text \<open>A row of a result: a tuple from a DB-API cursor or a document from \<open>find\<close>.\<close>

datatype qrow = TupleRow "dbval list" | DocRow doc

text \<open>What Streamlit shows, in order: \<open>st.error\<close>, \<open>st.error(f"...{e}")\<close> with an
  exception, \<open>st.success\<close>, \<open>st.info\<close>, \<open>st.subheader\<close>, \<open>st.code\<close>,
  \<open>st.write\<close> of a text and of a \<open>pd.DataFrame\<close> of rows.\<close>

datatype msg =
    StError string
  | StErrorExc string exc
  | StSuccess string
  | StInfo string
  | StSubheader string
  | StCode string
  | StWrite string
  | StFrame "qrow list"

text \<open>The connection object \<open>mysql.connector.connect\<close> or \<open>psycopg2.connect\<close> returns.\<close>

definition vendor_handle :: "sql_vendor \<Rightarrow> conn_params \<Rightarrow> bool \<Rightarrow> handle" where
  "vendor_handle v ps is_open = (case v of VMySQL \<Rightarrow> MySQLConn ps is_open | VPostgres \<Rightarrow> PgConn ps is_open)"

subsection \<open>The world\<close>

text \<open>
  \<^item> \<open>files\<close>: the local file system (SQLite databases, uploads);
  \<^item> \<open>sql_servers\<close>: the relational databases a driver reaches with given parameters;
  \<^item> \<open>mongo_servers\<close>: MongoDB servers, by the host part of their URI;
  \<^item> \<open>next_oid\<close>: the next \<open>ObjectId\<close> the client generates;
  \<^item> \<open>ui\<close>: the messages shown so far.
\<close>

record world =
  files :: "path \<rightharpoonup> disk_file"
  sql_servers :: "sql_vendor \<Rightarrow> conn_params \<rightharpoonup> sql_db"
  mongo_servers :: "string \<rightharpoonup> mongo_server"
  next_oid :: nat
  ui :: "msg list"

definition show_msg :: "msg \<Rightarrow> world \<Rightarrow> world" where
  "show_msg m w = w\<lparr>ui := ui w @ [m]\<rparr>"

text \<open>Uncaught exceptions are part of a result: an operation returns an \<open>outcome\<close>, the
  exception or the value, with the world as it is at that point.\<close>

type_synonym 'a outcome = "(exc + 'a) \<times> world"

text \<open>\<open>try: ... except Exception as e: st.error(f"{pre}{e}"); result = dflt\<close>: an
  \<open>Exception\<close> is shown and replaced by the default, a \<open>BaseException\<close> propagates.\<close>

definition catch_exception :: "string \<Rightarrow> 'a \<Rightarrow> 'a outcome \<Rightarrow> 'a outcome" where
  "catch_exception pre dflt r =
     (case r of
        (Inr x, w) \<Rightarrow> (Inr x, w)
      | (Inl e, w) \<Rightarrow>
          if is_exception e then (Inr dflt, show_msg (StErrorExc pre e) w) else (Inl e, w))"

text \<open>A relational server's database at given parameters, replaced.\<close>

definition set_sql_db :: "sql_vendor \<Rightarrow> conn_params \<Rightarrow> sql_db \<Rightarrow> world \<Rightarrow> world" where
  "set_sql_db v ps d w = w\<lparr>sql_servers := (sql_servers w)(v := (sql_servers w v)(ps \<mapsto> d))\<rparr>"

subsection \<open>External collaborators\<close>

text \<open>
  What a statement does is decided by the vendor's engine: a result set (the rows of a
  query) or no result set (a statement without one), and the database afterwards, or an
  exception. On MySQL and PostgreSQL the code never commits, so what the server keeps
  of a statement is what the statement commits itself: \<open>sql_durable\<close> gives the
  database after the statement once its open transaction is rolled back (MySQL
  commits every DDL statement implicitly; a PostgreSQL text may hold its own
  \<open>COMMIT\<close>); it applies whether the statement then raises or not. Python's
  \<open>eval\<close> runs arbitrary code: it returns a value or raises, and may change the world
  (write files, open connections).
\<close>

datatype stmt_result = ResultSet "dbval list list" | NoResultSet

record ext =
  env :: "string \<rightharpoonup> string"
  read_csv :: "disk_file \<Rightarrow> exc + csv"
  sql_engine :: "handle \<Rightarrow> string \<Rightarrow> sql_db \<Rightarrow> exc + (stmt_result \<times> sql_db)"
  sql_durable :: "handle \<Rightarrow> string \<Rightarrow> sql_db \<Rightarrow> sql_db"
  py_eval :: "string \<Rightarrow> world \<Rightarrow> dbval outcome"
  mongo_find :: "doc \<Rightarrow> doc list \<Rightarrow> exc + doc list"
  llm :: "string list \<Rightarrow> string \<Rightarrow> string"

subsection \<open>SQLite files and columns\<close>

text \<open>
  \<open>sqlite3.connect(path)\<close> followed by a statement: a missing or empty file is an
  empty database; a file that is not an SQLite database raises
  \<open>DatabaseError: file is not a database\<close>. \<open>sqlite_store\<close> is the commit.
\<close>

definition file_at :: "world \<Rightarrow> path \<Rightarrow> disk_file option" where
  "file_at w p = files w (norm_path p)"

definition write_file :: "path \<Rightarrow> disk_file \<Rightarrow> world \<Rightarrow> world" where
  "write_file p f w = w\<lparr>files := (files w)(norm_path p \<mapsto> f)\<rparr>"

definition sqlite_open :: "world \<Rightarrow> path \<Rightarrow> exc + sql_db" where
  "sqlite_open w p =
     (case file_at w p of
        None \<Rightarrow> Inr Map.empty
      | Some (SqliteFile d) \<Rightarrow> Inr d
      | Some (DataFile bs) \<Rightarrow>
          if bs = [] then Inr Map.empty else Inl (DriverError ''file is not a database''))"

definition sqlite_store :: "world \<Rightarrow> path \<Rightarrow> sql_db \<Rightarrow> world" where
  "sqlite_store w p d = write_file p (SqliteFile d) w"

text \<open>A world with no files, no servers and nothing shown: the start of the examples.\<close>

definition empty_world :: world where
  "empty_world = \<lparr>files = Map.empty, sql_servers = (\<lambda>_. Map.empty), mongo_servers = Map.empty,
     next_oid = 0, ui = []\<rparr>"

primrec col_index :: "string list \<Rightarrow> string \<Rightarrow> nat option" where
  "col_index [] c = None"
| "col_index (x # xs) c = (if x = c then Some 0 else map_option Suc (col_index xs c))"

lemma show_msg_simps [simp]:
  "files (show_msg m w) = files w"
  "sql_servers (show_msg m w) = sql_servers w"
  "mongo_servers (show_msg m w) = mongo_servers w"
  "next_oid (show_msg m w) = next_oid w"
  "ui (show_msg m w) = ui w @ [m]"
  by (simp_all add: show_msg_def)

lemma sqlite_open_store [simp]: "sqlite_open (sqlite_store w p d) p = Inr d"
  by (simp add: sqlite_open_def sqlite_store_def file_at_def write_file_def)

lemma sqlite_store_simps [simp]:
  "files (sqlite_store w p d) = (files w)(norm_path p \<mapsto> SqliteFile d)"
  "sql_servers (sqlite_store w p d) = sql_servers w"
  "mongo_servers (sqlite_store w p d) = mongo_servers w"
  "next_oid (sqlite_store w p d) = next_oid w"
  "ui (sqlite_store w p d) = ui w"
  by (simp_all add: sqlite_store_def write_file_def)

lemma sqlite_open_show_msg [simp]: "sqlite_open (show_msg m w) p = sqlite_open w p"
  by (simp add: sqlite_open_def file_at_def)

lemma write_file_simps [simp]:
  "files (write_file p f w) = (files w)(norm_path p \<mapsto> f)"
  "sql_servers (write_file p f w) = sql_servers w"
  "mongo_servers (write_file p f w) = mongo_servers w"
  "next_oid (write_file p f w) = next_oid w"
  "ui (write_file p f w) = ui w"
  by (simp_all add: write_file_def)

lemma catch_exception_Inr [simp]: "catch_exception pre d (Inr x, w) = (Inr x, w)"
  by (simp add: catch_exception_def)

lemma catch_exception_Inl [simp]:
  "catch_exception pre d (Inl e, w) =
     (if is_exception e then (Inr d, show_msg (StErrorExc pre e) w) else (Inl e, w))"
  by (simp add: catch_exception_def)

lemma catch_exception_fst:
  "fst (catch_exception pre d (x, w)) =
     (case x of Inl e \<Rightarrow> if is_exception e then Inr d else Inl e | Inr v \<Rightarrow> Inr v)"
  by (simp add: catch_exception_def split: sum.split)

lemma catch_exception_files [simp]: "files (snd (catch_exception pre d r)) = files (snd r)"
  by (auto simp: catch_exception_def split: prod.split sum.split)

lemma sql_db_of_set [simp]:
  "sql_servers (set_sql_db v ps d w) v' ps' =
     (if v' = v \<and> ps' = ps then Some d else sql_servers w v' ps')"
  by (simp add: set_sql_db_def)

lemma set_sql_db_simps [simp]:
  "files (set_sql_db v ps d w) = files w"
  "mongo_servers (set_sql_db v ps d w) = mongo_servers w"
  "next_oid (set_sql_db v ps d w) = next_oid w"
  "ui (set_sql_db v ps d w) = ui w"
  by (simp_all add: set_sql_db_def)

lemma set_sql_db_same: "sql_servers w v ps = Some d \<Longrightarrow> set_sql_db v ps d w = w"
  by (cases w) (auto simp: set_sql_db_def fun_upd_idem)

subsection \<open>Paths\<close>

lemma path_segs_plain: "CHR ''/'' \<notin> set n \<Longrightarrow> path_segs n = [n]"
  by (induction n) auto

lemma path_segs_append_slash:
  "CHR ''/'' \<notin> set a \<Longrightarrow> path_segs (a @ CHR ''/'' # b) = a # path_segs b"
  by (induction a) auto

text \<open>A path of one segment is its own resolution.\<close>

lemma norm_path_plain:
  "CHR ''/'' \<notin> set n \<Longrightarrow> n \<noteq> [] \<Longrightarrow> n \<noteq> ''.'' \<Longrightarrow> n \<noteq> ''..'' \<Longrightarrow> norm_path n = n"
  by (simp add: norm_path_def path_segs_plain)

text \<open>A file name with no \<open>/\<close> put under a directory stays in that directory.\<close>

lemma norm_path_in_dir:
  assumes "CHR ''/'' \<notin> set dir" "dir \<noteq> []" "dir \<noteq> ''.''" "dir \<noteq> ''..''" "CHR ''/'' \<notin> set n"
  shows "norm_path (dir @ ''/'' @ n) \<in> {dir, [], dir @ ''/'' @ n}"
  using assms by (simp add: norm_path_def path_segs_append_slash path_segs_plain)

lemma col_index_Some: "col_index xs c = Some i \<Longrightarrow> i < length xs \<and> xs ! i = c"
  by (induction xs arbitrary: i) (auto split: if_splits)

end
