(* ===== verification/Credentials.thy ===== *)
theory Credentials
  imports Backend
begin

text \<open>
  The credential store of the signup/login page: \<open>src/BOT/init_db.py\<close> (\<open>create_db\<close>)
  and \<open>src/BOT/main.py\<close> (\<open>add_user\<close>, \<open>login_user\<close>). The store is the table
  \<open>users(username TEXT PRIMARY KEY, password TEXT)\<close> of the SQLite file
  \<open>database.db\<close>; the two statements the code issues (a parameterised \<open>INSERT\<close> and a
  parameterised \<open>SELECT ... WHERE username=? AND password=?\<close>) are modelled by their
  SQLite semantics on the table. The abstract store is a map from user names to
  passwords (\<open>creds\<close>); \<open>signup_spec\<close> and \<open>login_spec\<close> are its contract, and the
  refinement lemmas show that the code implements it on every world where the table is
  well formed (\<open>users_inv\<close>), which \<open>create_db\<close> establishes and every operation keeps.
\<close>

subsection \<open>The statements on the users table\<close>

definition users_db_path :: path where
  "users_db_path = ''database.db''"

definition users_schema :: table where
  "users_schema = \<lparr>tcols = [''username'', ''password''], trows = [], tpk = Some 0\<rparr>"

text \<open>
  \<open>INSERT INTO t (cs) VALUES (vs)\<close>: unnamed columns get \<open>NULL\<close>; a named column the
  table lacks is an error; a non-\<open>NULL\<close> primary key that is already present raises
  \<open>IntegrityError\<close> (SQLite admits several \<open>NULL\<close> keys in a \<open>TEXT PRIMARY KEY\<close>).
\<close>

definition sql_insert :: "string list \<Rightarrow> dbval list \<Rightarrow> table \<Rightarrow> exc + table" where
  "sql_insert cs vs t =
     (if \<not> set cs \<subseteq> set (tcols t) then Inl (OperationalError ''no such column'')
      else
        let row = map (\<lambda>c. case map_of (zip cs vs) c of Some v \<Rightarrow> v | None \<Rightarrow> VNull) (tcols t)
        in case tpk t of
             None \<Rightarrow> Inr (t\<lparr>trows := trows t @ [row]\<rparr>)
           | Some i \<Rightarrow>
               if row ! i \<noteq> VNull \<and> row ! i \<in> set (map (\<lambda>r. r ! i) (trows t))
               then Inl IntegrityError
               else Inr (t\<lparr>trows := trows t @ [row]\<rparr>))"

subsection \<open>\<open>init_db.create_db\<close>\<close>

text \<open>\<open>CREATE TABLE IF NOT EXISTS users (username TEXT PRIMARY KEY, password TEXT)\<close>, commit.\<close>

definition create_db :: "world \<Rightarrow> exc + world" where
  "create_db w =
     (case sqlite_open w users_db_path of
        Inl e \<Rightarrow> Inl e
      | Inr d \<Rightarrow>
          Inr (sqlite_store w users_db_path
                 (if d ''users'' = None then d(''users'' \<mapsto> users_schema) else d)))"

subsection \<open>\<open>main.add_user\<close> and \<open>main.login_user\<close>\<close>

text \<open>
  \<open>add_user\<close> catches \<open>sqlite3.IntegrityError\<close> only: any other exception (no
  \<open>users\<close> table, a file that is not a database) propagates to the page.
\<close>

definition add_user :: "string \<Rightarrow> string \<Rightarrow> world \<Rightarrow> exc + world" where
  "add_user username password w =
     (case sqlite_open w users_db_path of
        Inl e \<Rightarrow> Inl e
      | Inr d \<Rightarrow>
          (case d ''users'' of
             None \<Rightarrow> Inl (OperationalError ''no such table: users'')
           | Some t \<Rightarrow>
               (case sql_insert [''username'', ''password''] [VStr username, VStr password] t of
                  Inr t' \<Rightarrow>
                    Inr (show_msg (StSuccess ''Account created successfully!'')
                          (sqlite_store w users_db_path (d(''users'' \<mapsto> t'))))
                | Inl e \<Rightarrow>
                    if e = IntegrityError
                    then Inr (show_msg (StError
                           ''Username already exists. Please choose a different username.'') w)
                    else Inl e)))"

text \<open>\<open>SELECT * FROM users WHERE username=? AND password=?\<close> and \<open>fetchone()\<close>.\<close>

definition login_user :: "string \<Rightarrow> string \<Rightarrow> world \<Rightarrow> exc + dbval list option" where
  "login_user username password w =
     (case sqlite_open w users_db_path of
        Inl e \<Rightarrow> Inl e
      | Inr d \<Rightarrow>
          (case d ''users'' of
             None \<Rightarrow> Inl (OperationalError ''no such table: users'')
           | Some t \<Rightarrow>
               (case (col_index (tcols t) ''username'', col_index (tcols t) ''password'') of
                  (Some iu, Some ip) \<Rightarrow>
                    Inr (find (\<lambda>r. r ! iu = VStr username \<and> r ! ip = VStr password) (trows t))
                | _ \<Rightarrow> Inl (OperationalError ''no such column''))))"

subsection \<open>Abstract store, contract and invariant\<close>

fun row_pair :: "dbval list \<Rightarrow> string \<times> string" where
  "row_pair [VStr u, VStr p] = (u, p)"
| "row_pair _ = ([], [])"

fun cred_row :: "dbval list \<Rightarrow> bool" where
  "cred_row [VStr u, VStr p] = True"
| "cred_row _ = False"

definition users_table_ok :: "table \<Rightarrow> bool" where
  "users_table_ok t \<longleftrightarrow>
     tcols t = [''username'', ''password''] \<and> tpk t = Some 0 \<and>
     list_all cred_row (trows t) \<and> distinct (map (\<lambda>r. r ! 0) (trows t))"

definition users_table :: "world \<Rightarrow> table option" where
  "users_table w = (case sqlite_open w users_db_path of Inl _ \<Rightarrow> None | Inr d \<Rightarrow> d ''users'')"

definition users_inv :: "world \<Rightarrow> bool" where
  "users_inv w \<longleftrightarrow> (case users_table w of None \<Rightarrow> False | Some t \<Rightarrow> users_table_ok t)"

definition creds :: "world \<Rightarrow> string \<rightharpoonup> string" where
  "creds w = (case users_table w of None \<Rightarrow> Map.empty | Some t \<Rightarrow> map_of (map row_pair (trows t)))"

definition signup_spec :: "(string \<rightharpoonup> string) \<Rightarrow> string \<Rightarrow> string \<Rightarrow> (string \<rightharpoonup> string) \<times> bool" where
  "signup_spec m u p = (if m u = None then (m(u \<mapsto> p), True) else (m, False))"

definition login_spec :: "(string \<rightharpoonup> string) \<Rightarrow> string \<Rightarrow> string \<Rightarrow> bool" where
  "login_spec m u p \<longleftrightarrow> m u = Some p"

subsection \<open>Sequences of store operations\<close>

text \<open>
  The operations a user can trigger on the store, in any order: running
  \<open>init_db.py\<close>, a signup, a login (which leaves the store as it is).
\<close>

datatype cred_op = CreateDb | Signup string string | Login string string

fun cred_step :: "cred_op \<Rightarrow> world \<Rightarrow> exc + world" where
  "cred_step CreateDb w = create_db w"
| "cred_step (Signup u p) w = add_user u p w"
| "cred_step (Login u p) w = (case login_user u p w of Inl e \<Rightarrow> Inl e | Inr _ \<Rightarrow> Inr w)"

fun cred_run :: "cred_op list \<Rightarrow> world \<Rightarrow> exc + world" where
  "cred_run [] w = Inr w"
| "cred_run (op # ops) w = (case cred_step op w of Inl e \<Rightarrow> Inl e | Inr w' \<Rightarrow> cred_run ops w')"

text \<open>The store of the examples: \<open>database.db\<close> after \<open>init_db.py\<close> has run.\<close>

definition users_world :: world where
  "users_world = sqlite_store empty_world users_db_path (Map.empty(''users'' \<mapsto> users_schema))"

subsection \<open>Lemmas\<close>

lemma norm_users_db_path [simp]: "norm_path users_db_path = users_db_path"
  by (simp add: users_db_path_def norm_path_def)

lemma file_at_users [simp]: "file_at w users_db_path = files w users_db_path"
  by (simp add: file_at_def)


lemma cred_row_iff: "cred_row r \<longleftrightarrow> (\<exists>u p. r = [VStr u, VStr p])"
  by (induction r rule: cred_row.induct) auto

lemma key_in_rows:
  "list_all cred_row rs \<Longrightarrow>
   VStr u \<in> set (map (\<lambda>r. r ! 0) rs) \<longleftrightarrow> map_of (map row_pair rs) u \<noteq> None"
  by (induction rs) (auto simp: cred_row_iff)

lemma users_sql_insert:
  assumes "users_table_ok t"
  shows "sql_insert [''username'', ''password''] [VStr u, VStr p] t =
    (if map_of (map row_pair (trows t)) u = None
     then Inr (t\<lparr>trows := trows t @ [[VStr u, VStr p]]\<rparr>) else Inl IntegrityError)"
  using assms key_in_rows [of "trows t" u]
  by (auto simp: sql_insert_def users_table_ok_def)

lemma users_table_ok_insert:
  assumes "users_table_ok t" "map_of (map row_pair (trows t)) u = None"
  shows "users_table_ok (t\<lparr>trows := trows t @ [[VStr u, VStr p]]\<rparr>)"
  using assms key_in_rows [of "trows t" u] by (auto simp: users_table_ok_def)

lemma users_table_store [simp]:
  "users_table (sqlite_store w users_db_path d) = d ''users''"
  by (simp add: users_table_def)

lemma users_table_show_msg [simp]: "users_table (show_msg m w) = users_table w"
  by (simp add: users_table_def)

lemma users_inv_table:
  "users_inv w \<Longrightarrow> \<exists>d t. sqlite_open w users_db_path = Inr d \<and> d ''users'' = Some t \<and>
     users_table w = Some t \<and> users_table_ok t"
  by (auto simp: users_inv_def users_table_def split: sum.splits option.splits)

lemma add_user_spec:
  assumes "users_inv w"
  shows "\<exists>w'. add_user u p w = Inr w' \<and> users_inv w' \<and>
           creds w' = fst (signup_spec (creds w) u p) \<and>
           ui w' = ui w @ [if snd (signup_spec (creds w) u p)
                           then StSuccess ''Account created successfully!''
                           else StError ''Username already exists. Please choose a different username.'']"
proof -
  obtain d t where d: "sqlite_open w users_db_path = Inr d" and t: "d ''users'' = Some t"
    and ut: "users_table w = Some t" and ok: "users_table_ok t"
    using users_inv_table [OF assms] by blast
  have cw: "creds w = map_of (map row_pair (trows t))" by (simp add: creds_def ut)
  show ?thesis
  proof (cases "map_of (map row_pair (trows t)) u")
    case None
    then show ?thesis
      using d t ok ut users_table_ok_insert [OF ok None, of p]
      by (simp add: add_user_def users_sql_insert cw signup_spec_def users_inv_def creds_def
          map_add_def fun_eq_iff split: option.splits)
  next
    case (Some q)
    then show ?thesis
      using d t ok ut
      by (simp add: add_user_def users_sql_insert cw signup_spec_def users_inv_def creds_def)
  qed
qed

text \<open>C1: Signup refines the abstract store: on a well-formed users table, \<open>add_user\<close>
  never raises; it inserts the user exactly when the name is new (the store becomes
  \<open>m(u \<mapsto> p)\<close>), otherwise leaves the store unchanged, keeps the invariant, and shows
  the success or the duplicate-user message accordingly.\<close>

theorem add_user_refines:
  assumes "users_inv w"
  shows "\<exists>w'. add_user u p w = Inr w' \<and> users_inv w' \<and>
           creds w' = fst (signup_spec (creds w) u p) \<and>
           ui w' = ui w @ [if snd (signup_spec (creds w) u p)
                           then StSuccess ''Account created successfully!''
                           else StError ''Username already exists. Please choose a different username.'']"
  by (rule add_user_spec [OF assms])

lemma find_cred:
  "list_all cred_row rs \<Longrightarrow> distinct (map (\<lambda>r. r ! 0) rs) \<Longrightarrow>
   find (\<lambda>r. r ! 0 = VStr u \<and> r ! Suc 0 = VStr p) rs =
     (if map_of (map row_pair rs) u = Some p then Some [VStr u, VStr p] else None)"
proof (induction rs)
  case Nil
  then show ?case by simp
next
  case (Cons r rs)
  then obtain a b where r: "r = [VStr a, VStr b]" by (auto simp: cred_row_iff)
  from Cons have IH: "find (\<lambda>r. r ! 0 = VStr u \<and> r ! Suc 0 = VStr p) rs =
     (if map_of (map row_pair rs) u = Some p then Some [VStr u, VStr p] else None)" by simp
  show ?case
  proof (cases "a = u")
    case True
    with Cons.prems r key_in_rows [of rs u] have "map_of (map row_pair rs) u = None"
      by auto
    with True r IH show ?thesis by auto
  next
    case False
    with Cons r show ?thesis by auto
  qed
qed

lemma login_user_spec:
  assumes "users_inv w"
  shows "login_user u p w = Inr (if login_spec (creds w) u p then Some [VStr u, VStr p] else None)"
proof -
  obtain d t where d: "sqlite_open w users_db_path = Inr d" and t: "d ''users'' = Some t"
    and ut: "users_table w = Some t" and ok: "users_table_ok t"
    using users_inv_table [OF assms] by blast
  from ok have "tcols t = [''username'', ''password'']" "list_all cred_row (trows t)"
    "distinct (map (\<lambda>r. r ! 0) (trows t))" by (auto simp: users_table_ok_def)
  with d t ut show ?thesis
    by (simp add: login_user_def login_spec_def creds_def find_cred)
qed

text \<open>C2: Login is an exact-match predicate: on a well-formed users table,
  \<open>login_user u p\<close> returns the row \<open>[u, p]\<close> exactly when the store maps \<open>u\<close> to \<open>p\<close>, and
  no row otherwise.\<close>

theorem login_user_refines:
  assumes "users_inv w"
  shows "login_user u p w = Inr (if login_spec (creds w) u p then Some [VStr u, VStr p] else None)"
  by (rule login_user_spec [OF assms])


lemma users_table_ok_schema: "users_table_ok users_schema"
  by (simp add: users_table_ok_def users_schema_def)

text \<open>C36: \<open>create_db\<close> on a database without a \<open>users\<close> table creates it empty and
  well formed.\<close>

theorem create_db_establishes:
  assumes "sqlite_open w users_db_path = Inr d" and "d ''users'' = None"
  shows "\<exists>w'. create_db w = Inr w' \<and> users_inv w' \<and> creds w' = Map.empty"
  using assms users_table_ok_schema
  by (simp add: create_db_def users_inv_def creds_def users_schema_def)

lemma create_db_keeps:
  "users_inv w \<Longrightarrow> \<exists>w'. create_db w = Inr w' \<and> users_table w' = users_table w"
  by (auto simp: create_db_def dest!: users_inv_table)

lemma add_user_inv: "users_inv w \<Longrightarrow> \<exists>w'. add_user u p w = Inr w' \<and> users_inv w'"
proof -
  assume inv: "users_inv w"
  then obtain d t where d: "sqlite_open w users_db_path = Inr d" and t: "d ''users'' = Some t"
    and ok: "users_table_ok t"
    using users_inv_table by blast
  show ?thesis
    using d t ok users_table_ok_insert [OF ok] inv
    by (cases "map_of (map row_pair (trows t)) u")
       (simp_all add: add_user_def users_sql_insert users_inv_def)
qed

lemma login_user_ok: "users_inv w \<Longrightarrow> \<exists>r. login_user u p w = Inr r"
  by (auto simp: login_user_def users_table_ok_def dest!: users_inv_table)

lemma cred_step_inv: "users_inv w \<Longrightarrow> \<exists>w'. cred_step op w = Inr w' \<and> users_inv w'"
proof (cases op)
  case CreateDb
  assume "users_inv w"
  then show ?thesis using CreateDb create_db_keeps [of w] by (auto simp: users_inv_def)
next
  case (Signup u p)
  assume "users_inv w"
  then show ?thesis using Signup add_user_inv by simp
next
  case (Login u p)
  assume "users_inv w"
  then show ?thesis using Login login_user_ok [of w u p] by auto
qed

text \<open>C12: Any sequence of \<open>init_db\<close> runs, signups and logins from a well-formed store
  completes without an exception and leaves the users table well formed (names unique).\<close>

theorem cred_run_inv: "users_inv w \<Longrightarrow> \<exists>w'. cred_run ops w = Inr w' \<and> users_inv w'"
proof (induction ops arbitrary: w)
  case Nil
  then show ?case by simp
next
  case (Cons op ops)
  from cred_step_inv [OF Cons.prems] obtain w' where "cred_step op w = Inr w'" "users_inv w'"
    by blast
  with Cons.IH show ?case by simp
qed

text \<open>C37: Error path: when \<open>init_db.py\<close> has not run (no \<open>users\<close> table), \<open>add_user\<close>
  does not report a duplicate or success but raises \<open>OperationalError\<close>, which
  \<open>add_user\<close> does not catch.\<close>

theorem add_user_no_table:
  assumes "sqlite_open w users_db_path = Inr d" and "d ''users'' = None"
  shows "add_user u p w = Inl (OperationalError ''no such table: users'')"
  using assms by (simp add: add_user_def)

lemma users_world_inv: "users_inv users_world"
  and users_world_creds: "creds users_world = Map.empty"
  and users_world_ui: "ui users_world = []"
  by (simp_all add: users_world_def users_inv_def creds_def users_table_def users_table_ok_schema)
     (simp_all add: users_schema_def empty_world_def)

theorem add_user_refines_witness:
  "users_inv users_world \<and>
   (\<exists>w'. add_user ''alice'' ''p1'' users_world = Inr w' \<and> creds w' = [''alice'' \<mapsto> ''p1''] \<and>
        ui w' = [StSuccess ''Account created successfully!''])"
  using add_user_refines [OF users_world_inv, of "''alice''" "''p1''"] users_world_inv
  by (auto simp: users_world_creds signup_spec_def users_world_ui)

theorem login_user_refines_witness:
  "users_inv users_world \<and> login_user ''alice'' ''p1'' users_world = Inr None"
  using login_user_refines [OF users_world_inv, of "''alice''" "''p1''"] users_world_inv
  by (simp add: users_world_creds login_spec_def)

theorem create_db_establishes_witness:
  "sqlite_open empty_world users_db_path = Inr Map.empty \<and> (Map.empty :: sql_db) ''users'' = None \<and>
   (\<exists>w'. create_db empty_world = Inr w' \<and> users_inv w' \<and> creds w' = Map.empty)"
proof -
  have o: "sqlite_open empty_world users_db_path = Inr Map.empty"
    by (simp add: sqlite_open_def empty_world_def)
  show ?thesis using create_db_establishes [OF o] o by simp
qed

theorem cred_run_inv_witness:
  "users_inv users_world \<and>
   (\<exists>w'. cred_run [Signup ''alice'' ''p1'', Signup ''alice'' ''p2'', Login ''alice'' ''p1'']
          users_world = Inr w' \<and> users_inv w')"
  using cred_run_inv [OF users_world_inv] users_world_inv by blast

theorem add_user_no_table_witness:
  "sqlite_open empty_world users_db_path = Inr Map.empty \<and> (Map.empty :: sql_db) ''users'' = None \<and>
   add_user ''alice'' ''p1'' empty_world = Inl (OperationalError ''no such table: users'')"
proof -
  have o: "sqlite_open empty_world users_db_path = Inr Map.empty"
    by (simp add: sqlite_open_def empty_world_def)
  show ?thesis using add_user_no_table [OF o] o by simp
qed

text \<open>The specification's example: signing up \<open>alice\<close> twice succeeds once and reports
  the duplicate the second time; afterwards the first password logs in and another does not.\<close>

theorem signup_twice_login:
  "\<exists>w1 w2. add_user ''alice'' ''p1'' users_world = Inr w1 \<and> add_user ''alice'' ''p2'' w1 = Inr w2 \<and>
     ui w2 = [StSuccess ''Account created successfully!'',
              StError ''Username already exists. Please choose a different username.''] \<and>
     login_user ''alice'' ''p1'' w2 = Inr (Some [VStr ''alice'', VStr ''p1'']) \<and>
     login_user ''alice'' ''wrong'' w2 = Inr None"
  by (simp add: users_world_def empty_world_def add_user_def login_user_def sqlite_open_def
      users_schema_def sql_insert_def)

end
