(* ===== verification/Executor.thy ===== *)
theory Executor
  imports Backend
begin

text \<open>
  The query executor of \<open>src/BOT/pages/app.py\<close>: \<open>read_sql_query\<close> (lines 129-155)
  and \<open>read_query\<close> (lines 158-169). \<open>clean_query\<close> is the clean-up of line 130;
  \<open>exec_query\<close> is the body of the \<open>try\<close> block, dispatching on the handle kind as the
  \<open>isinstance\<close> chain does; \<open>read_sql_query\<close> adds the handler that turns every
  exception into a message and an empty result. The SQL text is passed to the vendor's
  engine verbatim; on MongoDB it is passed to Python's \<open>eval\<close> and the value must be a
  \<open>dict\<close> (or \<open>None\<close>) for \<open>find\<close>. The lemmas give the behaviour on every branch, the
  properties of the clean-up (idempotent, no fence survives), the commit on SQLite
  only, and the equivalence of \<open>read_query\<close>'s two branches.
\<close>

subsection \<open>Clean-up: \<open>sql.replace("```", "").strip()\<close>\<close>

definition fence :: string where
  "fence = ''```''"

definition clean_query :: "string \<Rightarrow> string" where
  "clean_query sql = py_strip (py_replace sql fence [])"

subsection \<open>The body of the \<open>try\<close> block\<close>

text \<open>
  \<open>cursor.fetchall()\<close> after a statement without a result set: \<open>sqlite3\<close> returns
  \<open>[]\<close>, \<open>mysql.connector\<close> raises \<open>InterfaceError\<close> and \<open>psycopg2\<close> raises
  \<open>ProgrammingError\<close>.
\<close>

fun sqlite_fetchall :: "stmt_result \<Rightarrow> dbval list list" where
  "sqlite_fetchall (ResultSet rs) = rs"
| "sqlite_fetchall NoResultSet = []"

text \<open>
  MySQL and PostgreSQL: a closed connection raises at \<open>conn.cursor()\<close>; the statement
  runs in the driver's open transaction, which the code never commits (\<open>autocommit\<close> is
  off in both drivers) and which is rolled back when the connection is closed. What the
  server keeps is the part the statement commits itself (\<open>sql_durable\<close>), whether the
  statement returns rows, returns none (and \<open>fetchall\<close> raises) or raises. The
  statement sees the stored database.
\<close>

definition rel_fetch :: "ext \<Rightarrow> sql_vendor \<Rightarrow> string \<Rightarrow> handle \<Rightarrow> conn_params \<Rightarrow> bool \<Rightarrow>
    world \<Rightarrow> dbval list list outcome" where
  "rel_fetch X v sql conn ps is_open w =
     (if \<not> is_open then (Inl (DriverError ''connection is closed''), w)
      else case sql_servers w v ps of
        None \<Rightarrow> (Inl (DriverError ''server unreachable''), w)
      | Some d \<Rightarrow>
          (let w' = set_sql_db v ps (sql_durable X conn sql d) w
           in case sql_engine X conn sql d of
                Inl e \<Rightarrow> (Inl e, w')
              | Inr (ResultSet rs, _) \<Rightarrow> (Inr rs, w')
              | Inr (NoResultSet, _) \<Rightarrow> (Inl (DriverError ''no result set to fetch from''), w')))"

definition rel_query :: "ext \<Rightarrow> sql_vendor \<Rightarrow> string \<Rightarrow> handle \<Rightarrow> conn_params \<Rightarrow> bool \<Rightarrow>
    world \<Rightarrow> qrow list outcome" where
  "rel_query X v sql conn ps is_open w =
     (case rel_fetch X v sql conn ps is_open w of
        (Inl e, w') \<Rightarrow> (Inl e, w')
      | (Inr rs, w') \<Rightarrow> (Inr (map TupleRow rs), w'))"

text \<open>
  MongoDB: \<open>conn.get_default_database()\<close> raises \<open>ConfigurationError\<close> when the URI
  names no database; \<open>eval(sql)\<close> runs the text as Python, which may raise any
  exception, \<open>SystemExit\<close> included, and may change the world; \<open>find\<close> takes a \<open>dict\<close>
  or \<open>None\<close> (all documents) and raises \<open>TypeError\<close> on anything else; \<open>list(...)\<close>
  reaches the server; a missing database or collection is empty.
\<close>

definition mongo_collection :: "world \<Rightarrow> string \<Rightarrow> string \<Rightarrow> string \<Rightarrow> exc + doc list" where
  "mongo_collection w srv dbn coll =
     (case mongo_servers w srv of
        None \<Rightarrow> Inl (DriverError ''server selection timeout'')
      | Some s \<Rightarrow>
          Inr (case s dbn of None \<Rightarrow> [] | Some db \<Rightarrow> (case db coll of None \<Rightarrow> [] | Some ds \<Rightarrow> ds)))"

definition mongo_query :: "ext \<Rightarrow> string \<Rightarrow> string option \<Rightarrow> string \<Rightarrow> string \<Rightarrow> world \<Rightarrow>
    qrow list outcome" where
  "mongo_query X srv dflt coll sql w =
     (case dflt of
        None \<Rightarrow> (Inl ConfigurationError, w)
      | Some dbn \<Rightarrow>
          (case py_eval X sql w of
             (Inl e, w1) \<Rightarrow> (Inl e, w1)
           | (Inr q, w1) \<Rightarrow>
               (case (case q of VDoc f \<Rightarrow> Inr f | VNull \<Rightarrow> Inr []
                       | _ \<Rightarrow> Inl (TypeError ''filter must be an instance of dict'')) of
                  Inl e \<Rightarrow> (Inl e, w1)
                | Inr f \<Rightarrow>
                    (case mongo_collection w1 srv dbn coll of
                       Inl e \<Rightarrow> (Inl e, w1)
                     | Inr docs \<Rightarrow>
                         (case mongo_find X f docs of
                            Inl e \<Rightarrow> (Inl e, w1)
                          | Inr ds \<Rightarrow> (Inr (map DocRow ds), w1))))))"

definition exec_query :: "ext \<Rightarrow> string \<Rightarrow> handle \<Rightarrow> string option \<Rightarrow> world \<Rightarrow>
    qrow list outcome" where
  "exec_query X sql conn table_name w =
     (case conn of
        SqliteConn p \<Rightarrow>
          (case sqlite_open w p of
             Inl e \<Rightarrow> (Inl e, w)
           | Inr d \<Rightarrow>
               (case sql_engine X conn sql d of
                  Inl e \<Rightarrow> (Inl e, w)
                | Inr (r, d') \<Rightarrow> (Inr (map TupleRow (sqlite_fetchall r)), sqlite_store w p d')))
      | MySQLConn ps is_open \<Rightarrow> rel_query X VMySQL sql conn ps is_open w
      | PgConn ps is_open \<Rightarrow> rel_query X VPostgres sql conn ps is_open w
      | MongoConn srv dflt \<Rightarrow>
          (if py_truthy table_name then mongo_query X srv dflt (the table_name) sql w
           else (Inr [], w)))"

subsection \<open>\<open>read_sql_query\<close> and \<open>read_query\<close>\<close>

definition read_sql_query :: "ext \<Rightarrow> string \<Rightarrow> handle \<Rightarrow> string option \<Rightarrow> world \<Rightarrow>
    qrow list outcome" where
  "read_sql_query X sql conn table_name w =
     catch_exception ''Error executing query: '' [] (exec_query X (clean_query sql) conn table_name w)"

text \<open>
  \<open>read_query\<close> tests \<open>'select' in response.lower()\<close> and calls \<open>read_sql_query\<close> in
  both branches; its own handler (returning \<open>None\<close>) catches the \<open>Exception\<close>s
  \<open>read_sql_query\<close> lets through, and it lets none through.
\<close>

definition read_query :: "ext \<Rightarrow> string \<Rightarrow> handle \<Rightarrow> string \<Rightarrow> world \<Rightarrow>
    qrow list option outcome" where
  "read_query X response conn table_name w =
     catch_exception ''Error reading query: '' None
       (if py_in ''select'' (py_lower response)
        then (case read_sql_query X response conn (Some table_name) w of
                (Inl e, w') \<Rightarrow> (Inl e, w') | (Inr r, w') \<Rightarrow> (Inr (Some r), w'))
        else (case read_sql_query X response conn (Some table_name) w of
                (Inl e, w') \<Rightarrow> (Inl e, w') | (Inr r, w') \<Rightarrow> (Inr (Some r), w')))"

text \<open>
  The handler's answer on MongoDB once the filter text has been evaluated: \<open>find\<close> on a
  \<open>dict\<close> or on \<open>None\<close> (no filter), \<open>TypeError\<close> on any other value.
\<close>

definition mongo_answer :: "ext \<Rightarrow> dbval \<Rightarrow> doc list \<Rightarrow> exc + qrow list" where
  "mongo_answer X q docs =
     (case q of
        VDoc f \<Rightarrow> map_sum id (map DocRow) (mongo_find X f docs)
      | VNull \<Rightarrow> map_sum id (map DocRow) (mongo_find X [] docs)
      | _ \<Rightarrow> Inl (TypeError ''filter must be an instance of dict''))"

text \<open>Collaborators that raise \<open>Exception\<close>s only: the engine, \<open>eval\<close> and \<open>find\<close>
  never raise \<open>SystemExit\<close>.\<close>

definition exceptions_only :: "ext \<Rightarrow> bool" where
  "exceptions_only X \<longleftrightarrow>
     (\<forall>c q d. sql_engine X c q d \<noteq> Inl SystemExit) \<and>
     (\<forall>q w w'. py_eval X q w \<noteq> (Inl SystemExit, w')) \<and>
     (\<forall>f ds. mongo_find X f ds \<noteq> Inl SystemExit)"

text \<open>\<open>eval\<close> leaves the file at a (resolved) path as it is.\<close>

definition eval_keeps_file :: "ext \<Rightarrow> path \<Rightarrow> bool" where
  "eval_keeps_file X x \<longleftrightarrow> (\<forall>q w. files (snd (py_eval X q w)) x = files w x)"

subsection \<open>Examples\<close>


definition demo_ext :: ext where
  "demo_ext = \<lparr>env = Map.empty,
     read_csv = (\<lambda>f. case f of DataFile _ \<Rightarrow> Inr ([''a''], [[VInt 1]])
                             | SqliteFile _ \<Rightarrow> Inl (ValueError ''not a CSV file'')),
     sql_engine = (\<lambda>c q d. if q = ''SELECT 1'' then Inr (ResultSet [[VInt 1]], d)
                          else if q = ''DELETE FROM t'' then Inr (NoResultSet, Map.empty)
                          else if q = ''DROP TABLE t'' then Inr (NoResultSet, d(''t'' := None))
                          else Inl (DriverError ''syntax error'')),
     sql_durable = (\<lambda>c q d. if q = ''DROP TABLE t'' then d(''t'' := None) else d),
     py_eval = (\<lambda>q w. if q = ''{}'' then (Inr (VDoc []), w) else (Inl (EvalError ''invalid syntax''), w)),
     mongo_find = (\<lambda>f ds. Inr ds),
     llm = (\<lambda>ps q. q)\<rparr>"



definition demo_mongo_world :: world where
  "demo_mongo_world = empty_world\<lparr>mongo_servers := [''localhost:27017'' \<mapsto> Map.empty]\<rparr>"

subsection \<open>Lemmas\<close>

lemma fence_run: "fence = replicate 3 (CHR 0x60)"
  by (simp add: fence_def numeral_3_eq_3)

lemma replace_fence_free: "\<not> py_in fence (py_replace s fence [])"
  unfolding fence_run by (rule py_replace_removes_run) simp

lemma replace_scan_fence_free:
  "CHR 0x60 \<notin> set s \<Longrightarrow> replace_scan fence new (s @ t) = s @ replace_scan fence new t"
  by (induction s) (auto simp: fence_def py_startswith_def)

lemma exec_query_sqlite:
  "exec_query X sql (SqliteConn p) tn w =
     (case sqlite_open w p of
        Inl e \<Rightarrow> (Inl e, w)
      | Inr d \<Rightarrow>
          (case sql_engine X (SqliteConn p) sql d of
             Inl e \<Rightarrow> (Inl e, w)
           | Inr (r, d') \<Rightarrow> (Inr (map TupleRow (sqlite_fetchall r)), sqlite_store w p d')))"
  by (simp add: exec_query_def)

lemma exec_query_rel:
  "exec_query X sql (vendor_handle v ps b) tn w = rel_query X v sql (vendor_handle v ps b) ps b w"
  by (cases v) (simp_all add: exec_query_def vendor_handle_def)



text \<open>C5: No code fence survives the clean-up: \<open>```\<close> is not a substring of
  \<open>sql.replace("```", "").strip()\<close>, for any input (runs of four or more backticks included).\<close>

theorem clean_query_no_fence: "\<not> py_in fence (clean_query s)"
proof -
  have "sublist (clean_query s) (py_replace s fence [])"
    unfolding clean_query_def by (rule py_strip_sublist)
  with replace_fence_free show ?thesis
    unfolding py_in_def by (rule sublist_trans_not [rotated])
qed

lemma clean_query_idem: "clean_query (clean_query s) = clean_query s"
proof -
  have "sublist (clean_query s) (py_replace s fence [])"
    unfolding clean_query_def by (rule py_strip_sublist)
  with replace_fence_free have "\<not> py_in fence (clean_query s)"
    unfolding py_in_def by (rule sublist_trans_not [rotated])
  then have "py_replace (clean_query s) fence [] = clean_query s"
    by (rule py_replace_absent [rotated]) (simp add: fence_def)
  then show ?thesis by (simp add: clean_query_def py_strip_idem)
qed

text \<open>C4: Cleaning is idempotent at the executor: running the cleaned text gives the same
  rows, messages and world as running the raw text.\<close>

theorem read_sql_query_clean: "read_sql_query X (clean_query s) = read_sql_query X s"
  by (simp add: read_sql_query_def clean_query_idem fun_eq_iff)

text \<open>C34: The clean-up of a fenced block whose text has no backtick is that text,
  stripped: the backticks go, but a language tag written right after the opening fence
  (\<open>```sql\<close>) stays at the front of the text the engine receives.\<close>

theorem clean_query_fenced:
  "CHR 0x60 \<notin> set s \<Longrightarrow> clean_query (fence @ s @ fence) = py_strip s"
proof -
  assume s: "CHR 0x60 \<notin> set s"
  have "replace_scan fence [] (fence @ s @ fence) = replace_scan fence [] (s @ fence)"
    by (simp add: fence_def py_startswith_def)
  also have "\<dots> = s" using s
    by (simp add: replace_scan_fence_free) (simp add: fence_def py_startswith_def)
  finally show ?thesis by (simp add: clean_query_def py_replace_def fence_def)
qed

text \<open>C6: An exception raised while executing (the driver, the engine, \<open>eval\<close>,
  \<open>find\<close>) is caught when it is an \<open>Exception\<close>: the result is the empty row list and one
  error message, in the world as it was when the exception was raised (what the engine
  committed or \<open>eval\<close> did stays); a \<open>SystemExit\<close> is not caught and propagates.\<close>

theorem read_sql_query_error:
  "exec_query X (clean_query s) c tn w = (Inl e, w') \<Longrightarrow>
   read_sql_query X s c tn w =
     (if is_exception e then (Inr [], show_msg (StErrorExc ''Error executing query: '' e) w')
      else (Inl e, w'))"
  by (simp add: read_sql_query_def)

text \<open>C15: On an SQLite handle the cleaned text is run by the engine on the file's database, the
  rows are fetched (none for a statement without a result set) and the database after the
  statement is committed to the file, mutating statements included.\<close>

theorem read_sql_query_sqlite:
  "sqlite_open w p = Inr d \<Longrightarrow> sql_engine X (SqliteConn p) (clean_query s) d = Inr (r, d') \<Longrightarrow>
   read_sql_query X s (SqliteConn p) tn w = (Inr (map TupleRow (sqlite_fetchall r)), sqlite_store w p d')"
  by (simp add: read_sql_query_def exec_query_def)



text \<open>On a closed MySQL or PostgreSQL connection the executor yields no rows and shows the
  driver's error.\<close>

lemma read_sql_query_closed:
  "read_sql_query X s (vendor_handle v ps False) tn w =
     (Inr [], show_msg (StErrorExc ''Error executing query: '' (DriverError ''connection is closed'')) w)"
  by (simp add: read_sql_query_def exec_query_rel rel_query_def rel_fetch_def is_exception_def)

text \<open>C31: On a MongoDB handle with no table name (\<open>None\<close> or empty) nothing is evaluated
  or queried: the result is empty and no message is shown.\<close>

theorem read_sql_query_mongo_no_table:
  "\<not> py_truthy tn \<Longrightarrow> read_sql_query X s (MongoConn srv dflt) tn w = (Inr [], w)"
  by (simp add: read_sql_query_def exec_query_def)

lemma exec_query_mongo:
  "t \<noteq> [] \<Longrightarrow> exec_query X sql (MongoConn srv dflt) (Some t) w = mongo_query X srv dflt t sql w"
  by (simp add: exec_query_def py_truthy_def)

lemma mongo_query_answer:
  assumes "py_eval X sql w = (r, w1)" "mongo_collection w1 srv dbn t = Inr docs"
  shows "mongo_query X srv (Some dbn) t sql w =
    ((case r of Inl e \<Rightarrow> Inl e | Inr q \<Rightarrow> mongo_answer X q docs), w1)"
proof (cases r)
  case (Inl e)
  with assms show ?thesis by (simp add: mongo_query_def)
next
  case (Inr q)
  show ?thesis
  proof (cases q)
    case (VDoc f)
    with Inr assms show ?thesis
      by (cases "mongo_find X f docs") (simp_all add: mongo_query_def mongo_answer_def)
  next
    case VNull
    with Inr assms show ?thesis
      by (cases "mongo_find X [] docs") (simp_all add: mongo_query_def mongo_answer_def)
  qed (use Inr assms in \<open>simp_all add: mongo_query_def mongo_answer_def\<close>)
qed

text \<open>C30: On a MongoDB handle with a table name and a default database, the cleaned text is
  run by Python's \<open>eval\<close>, in the world it finds and with the effects it has; a \<open>dict\<close>
  (or \<open>None\<close>) is the filter of \<open>find\<close> on that collection, any other value is a
  \<open>TypeError\<close>; an \<open>Exception\<close> gives the empty result and a message, a \<open>SystemExit\<close> raised
  by the evaluated text propagates.\<close>

theorem read_sql_query_mongo:
  assumes "tn = Some t" "t \<noteq> []" "py_eval X (clean_query s) w = (r, w1)"
    "mongo_collection w1 srv dbn t = Inr docs"
  shows "read_sql_query X s (MongoConn srv (Some dbn)) tn w =
    catch_exception ''Error executing query: '' []
      ((case r of Inl e \<Rightarrow> Inl e | Inr q \<Rightarrow> mongo_answer X q docs), w1)"
  using assms by (simp add: read_sql_query_def exec_query_mongo mongo_query_answer)

text \<open>\<open>read_query\<close>'s test for \<open>select\<close> is dead: both branches are the same call, and
  its own handler is unreachable, since \<open>read_sql_query\<close> lets only \<open>SystemExit\<close> through.\<close>

lemma read_sql_query_raises:
  "fst (read_sql_query X s c tn w) = Inl e \<Longrightarrow> \<not> is_exception e"
  by (auto simp: read_sql_query_def catch_exception_def split: prod.splits sum.splits if_splits)

lemma read_query_eq:
  "read_query X r c t w =
     (case read_sql_query X r c (Some t) w of (Inl e, w') \<Rightarrow> (Inl e, w') | (Inr rs, w') \<Rightarrow> (Inr (Some rs), w'))"
  using read_sql_query_raises [of X r c "Some t" w]
  by (auto simp: read_query_def split: prod.split sum.split)

lemma read_query_eval_exit:
  assumes "t \<noteq> []" "fst (py_eval X (clean_query r) w) = Inl SystemExit"
  shows "fst (read_query X r (MongoConn srv (Some dbn)) t w) = Inl SystemExit"
proof -
  obtain w' where "py_eval X (clean_query r) w = (Inl SystemExit, w')"
    using assms(2) by (metis prod.collapse)
  then show ?thesis
    using assms(1) by (simp add: read_query_eq read_sql_query_def exec_query_mongo mongo_query_def
        is_exception_def)
qed

lemma exceptions_only_exec_query:
  assumes "exceptions_only X"
  shows "fst (exec_query X sql c tn w) \<noteq> Inl SystemExit"
proof -
  have e: "sql_engine X c' q d \<noteq> Inl SystemExit" "py_eval X q v \<noteq> (Inl SystemExit, v')"
    "mongo_find X f ds \<noteq> Inl SystemExit" for c' q d v v' f ds
    using assms by (auto simp: exceptions_only_def)
  show ?thesis
  proof (cases c)
    case (SqliteConn p)
    with e(1) show ?thesis
      by (auto simp: exec_query_def sqlite_open_def split: sum.split prod.split option.split
          disk_file.split if_split_asm)
  next
    case (MySQLConn ps b)
    with e(1) show ?thesis
      by (auto simp: exec_query_def rel_query_def rel_fetch_def Let_def
          split: sum.split prod.split option.split stmt_result.split)
  next
    case (PgConn ps b)
    with e(1) show ?thesis
      by (auto simp: exec_query_def rel_query_def rel_fetch_def Let_def
          split: sum.split prod.split option.split stmt_result.split)
  next
    case (MongoConn srv dflt)
    with e show ?thesis
      by (auto simp: exec_query_def mongo_query_def mongo_collection_def
          split: sum.split prod.split option.split dbval.split)
  qed
qed

lemma exceptions_only_read_query:
  "exceptions_only X \<Longrightarrow> \<exists>res. fst (read_query X r c t w) = Inr res"
  using exceptions_only_exec_query [of X "clean_query r" c "Some t" w]
  by (auto simp: read_query_eq read_sql_query_def catch_exception_def is_exception_def
      split: prod.split sum.split)

subsection \<open>Witnesses\<close>

theorem clean_query_fenced_witness:
  "CHR 0x60 \<notin> set (''sql'' @ [CHR 10] @ ''SELECT 1'') \<and>
   clean_query (fence @ (''sql'' @ [CHR 10] @ ''SELECT 1'') @ fence) = ''sql'' @ [CHR 10] @ ''SELECT 1''"
proof -
  have h: "CHR 0x60 \<notin> set (''sql'' @ [CHR 10] @ ''SELECT 1'')" by simp
  have "py_strip (''sql'' @ [CHR 10] @ ''SELECT 1'') = ''sql'' @ [CHR 10] @ ''SELECT 1''"
    by (simp add: py_simps)
  with clean_query_fenced [OF h] h show ?thesis by simp
qed

theorem read_sql_query_error_witness:
  "exec_query demo_ext (clean_query ''bogus'') (SqliteConn ''q.db'') None empty_world =
     (Inl (DriverError ''syntax error''), empty_world) \<and>
   read_sql_query demo_ext ''bogus'' (SqliteConn ''q.db'') None empty_world =
     (Inr [], show_msg (StErrorExc ''Error executing query: '' (DriverError ''syntax error'')) empty_world)"
proof -
  have h: "exec_query demo_ext (clean_query ''bogus'') (SqliteConn ''q.db'') None empty_world =
     (Inl (DriverError ''syntax error''), empty_world)"
    by (simp add: exec_query_def demo_ext_def clean_query_def fence_def py_simps sqlite_open_def
        file_at_def empty_world_def)
  show ?thesis using read_sql_query_error [OF h] h by (simp add: is_exception_def)
qed

theorem read_sql_query_sqlite_witness:
  "sqlite_open empty_world ''q.db'' = Inr Map.empty \<and>
   sql_engine demo_ext (SqliteConn ''q.db'') (clean_query ''```SELECT 1```'') Map.empty =
     Inr (ResultSet [[VInt 1]], Map.empty) \<and>
   read_sql_query demo_ext ''```SELECT 1```'' (SqliteConn ''q.db'') None empty_world =
     (Inr [TupleRow [VInt 1]], sqlite_store empty_world ''q.db'' Map.empty)"
proof -
  have o: "sqlite_open empty_world ''q.db'' = Inr Map.empty"
    by (simp add: sqlite_open_def file_at_def empty_world_def)
  have e: "sql_engine demo_ext (SqliteConn ''q.db'') (clean_query ''```SELECT 1```'') Map.empty =
     Inr (ResultSet [[VInt 1]], Map.empty)"
    by (simp add: demo_ext_def clean_query_def fence_def py_simps)
  show ?thesis using read_sql_query_sqlite [OF o e] o e by simp
qed




theorem read_sql_query_mongo_no_table_witness:
  "\<not> py_truthy (Some []) \<and>
   read_sql_query demo_ext ''{}'' (MongoConn ''localhost:27017'' (Some ''db'')) (Some []) demo_mongo_world =
     (Inr [], demo_mongo_world)"
proof -
  have h: "\<not> py_truthy (Some [])" by (simp add: py_truthy_def)
  show ?thesis using read_sql_query_mongo_no_table [OF h] h by simp
qed

theorem read_sql_query_mongo_witness:
  "Some ''movies'' = Some ''movies'' \<and> ''movies'' \<noteq> [] \<and>
   py_eval demo_ext (clean_query ''```{}```'') demo_mongo_world = (Inr (VDoc []), demo_mongo_world) \<and>
   mongo_collection demo_mongo_world ''localhost:27017'' ''db'' ''movies'' = Inr [] \<and>
   read_sql_query demo_ext ''```{}```'' (MongoConn ''localhost:27017'' (Some ''db'')) (Some ''movies'')
     demo_mongo_world = (Inr [], demo_mongo_world)"
proof -
  have c: "mongo_collection demo_mongo_world ''localhost:27017'' ''db'' ''movies'' = Inr []"
    by (simp add: mongo_collection_def demo_mongo_world_def)
  have e: "py_eval demo_ext (clean_query ''```{}```'') demo_mongo_world = (Inr (VDoc []), demo_mongo_world)"
    by (simp add: demo_ext_def clean_query_def fence_def py_simps)
  have f: "mongo_answer demo_ext (VDoc []) [] = Inr []"
    by (simp add: mongo_answer_def demo_ext_def)
  have n: "''movies'' \<noteq> []" by simp
  show ?thesis
    using read_sql_query_mongo [OF refl n e c] c e f by simp
qed

subsection \<open>Frame: what a query leaves of the file system\<close>

lemma rel_query_files [simp]: "files (snd (rel_query X v sql conn ps b w)) = files w"
  by (auto simp: rel_query_def rel_fetch_def Let_def split: prod.split sum.split option.split stmt_result.split)

lemma mongo_query_world:
  "snd (mongo_query X srv (Some dbn) coll sql w) = snd (py_eval X sql w)"
  by (auto simp: mongo_query_def split: prod.split sum.split option.split dbval.split)

lemma mongo_query_files:
  "eval_keeps_file X x \<Longrightarrow> files (snd (mongo_query X srv dflt coll sql w)) x = files w x"
  by (cases dflt) (simp_all add: mongo_query_world eval_keeps_file_def, simp add: mongo_query_def)

lemma exec_query_files:
  assumes "eval_keeps_file X x" "\<forall>q. conn = SqliteConn q \<longrightarrow> norm_path q \<noteq> x"
  shows "files (snd (exec_query X sql conn tn w)) x = files w x"
proof (cases conn)
  case (SqliteConn q)
  with assms(2) show ?thesis
    by (auto simp: exec_query_def split: sum.split prod.split)
qed (use assms(1) in \<open>simp_all add: exec_query_def mongo_query_files\<close>)

lemma read_query_files:
  "eval_keeps_file X x \<Longrightarrow> \<forall>q. conn = SqliteConn q \<longrightarrow> norm_path q \<noteq> x \<Longrightarrow>
   files (snd (read_query X r conn t w)) x = files w x"
proof -
  assume a: "eval_keeps_file X x" "\<forall>q. conn = SqliteConn q \<longrightarrow> norm_path q \<noteq> x"
  have "files (snd (read_sql_query X r conn (Some t) w)) x = files w x"
    using exec_query_files [OF a] by (simp add: read_sql_query_def)
  then show ?thesis
    by (auto simp: read_query_def split: prod.splits sum.splits)
qed

end
