(* ===== verification/Introspect.thy ===== *)
theory Introspect
  imports Executor
begin

text \<open>
  The schema introspector \<open>get_column_names(table_name, conn)\<close> of
  \<open>src/BOT/pages/app.py\<close> (lines 101-126). It dispatches on the handle: SQLite runs
  \<open>PRAGMA table_info(t)\<close> and takes field 1 of every row, MySQL \<open>SHOW COLUMNS FROM t\<close>
  and PostgreSQL a query on \<open>INFORMATION_SCHEMA.COLUMNS\<close>, both taking field 0; MongoDB
  takes the keys of the first document of the collection of the client's default
  database. The table name is spliced into the statement text as it is. Every
  \<open>Exception\<close> is caught, shown and turned into the empty list. On MySQL and
  PostgreSQL the catalogue statement runs as the executor's statements do: what it
  commits itself stays on the server.

  The catalogue statements are run by the vendor's engine (\<open>sql_engine\<close> of \<open>ext\<close>),
  as every statement of the executor is; the lemmas give the result for each answer of
  the engine. Column names are the driver's values (\<open>dbval\<close>), as in Python, where a
  list comprehension takes whatever the cursor returns.
\<close>

subsection \<open>The catalogue statements\<close>

definition table_info_stmt :: "string \<Rightarrow> string" where
  "table_info_stmt t = ''PRAGMA table_info('' @ t @ '')''"

definition show_columns_stmt :: "string \<Rightarrow> string" where
  "show_columns_stmt t = ''SHOW COLUMNS FROM '' @ t"

definition pg_columns_stmt :: "string \<Rightarrow> string" where
  "pg_columns_stmt t =
     ''SELECT column_name FROM INFORMATION_SCHEMA.COLUMNS WHERE table_name = '' @
     [CHR 0x27] @ t @ [CHR 0x27]"

text \<open>\<open>cursor.execute(stmt); cursor.fetchall()\<close> on a SQLite file: the file must be a
  database (\<open>sqlite3.connect\<close> creates a missing one); nothing is committed.\<close>

definition sqlite_rows :: "ext \<Rightarrow> path \<Rightarrow> string \<Rightarrow> world \<Rightarrow> exc + dbval list list" where
  "sqlite_rows X p stmt w =
     (case sqlite_open w p of
        Inl e \<Rightarrow> Inl e
      | Inr d \<Rightarrow>
          (case sql_engine X (SqliteConn p) stmt d of
             Inl e \<Rightarrow> Inl e
           | Inr (r, _) \<Rightarrow> Inr (sqlite_fetchall r)))"

text \<open>\<open>[row[i] for row in rows]\<close>: a row shorter than \<open>i + 1\<close> raises \<open>IndexError\<close>.\<close>

definition col_at :: "nat \<Rightarrow> dbval list list \<Rightarrow> exc + dbval list" where
  "col_at i rows =
     (if list_all (\<lambda>r. i < length r) rows then Inr (map (\<lambda>r. r ! i) rows)
      else Inl (IndexError ''tuple index out of range''))"

definition then_col :: "nat \<Rightarrow> dbval list list outcome \<Rightarrow> dbval list outcome" where
  "then_col i r = (case r of (Inl e, w) \<Rightarrow> (Inl e, w) | (Inr rows, w) \<Rightarrow> (col_at i rows, w))"

subsection \<open>MongoDB\<close>

text \<open>
  \<open>db = conn.get_default_database()\<close> (\<open>ConfigurationError\<close> when the URI names no
  database); \<open>table_name in db.list_collection_names()\<close> (the server must be
  reachable); \<open>list(db[table_name].find_one().keys())\<close>, where \<open>find_one()\<close> of an
  empty collection is \<open>None\<close> and \<open>None.keys()\<close> raises \<open>AttributeError\<close>.
\<close>

definition mongo_columns :: "world \<Rightarrow> string \<Rightarrow> string option \<Rightarrow> string \<Rightarrow> exc + dbval list" where
  "mongo_columns w srv dflt t =
     (case dflt of
        None \<Rightarrow> Inl ConfigurationError
      | Some dbn \<Rightarrow>
          (case mongo_servers w srv of
             None \<Rightarrow> Inl (DriverError ''server selection timeout'')
           | Some s \<Rightarrow>
               (case (case s dbn of None \<Rightarrow> None | Some db \<Rightarrow> db t) of
                  None \<Rightarrow> Inr []
                | Some [] \<Rightarrow> Inl (AttributeError ''NoneType object has no attribute keys'')
                | Some (d # _) \<Rightarrow> Inr (map (VStr \<circ> fst) d))))"

subsection \<open>\<open>get_column_names\<close>\<close>

text \<open>The body of the \<open>try\<close>: the \<open>isinstance\<close> dispatch. A handle is always one of the
  four kinds, so the final \<open>else: columns = []\<close> is unreachable in the model.\<close>

definition column_query :: "ext \<Rightarrow> string \<Rightarrow> handle \<Rightarrow> world \<Rightarrow> dbval list outcome" where
  "column_query X t conn w =
     (case conn of
        SqliteConn p \<Rightarrow> then_col 1 (sqlite_rows X p (table_info_stmt t) w, w)
      | MySQLConn ps b \<Rightarrow> then_col 0 (rel_fetch X VMySQL (show_columns_stmt t) conn ps b w)
      | PgConn ps b \<Rightarrow> then_col 0 (rel_fetch X VPostgres (pg_columns_stmt t) conn ps b w)
      | MongoConn srv dflt \<Rightarrow> (mongo_columns w srv dflt t, w))"

definition get_column_names :: "ext \<Rightarrow> string \<Rightarrow> handle \<Rightarrow> world \<Rightarrow> dbval list outcome" where
  "get_column_names X t conn w =
     catch_exception ''Error retrieving column names: '' [] (column_query X t conn w)"

subsection \<open>Examples\<close>

definition demo_catalog_ext :: ext where
  "demo_catalog_ext = demo_ext\<lparr>sql_engine := (\<lambda>c q d.
     if q = table_info_stmt ''movies''
     then Inr (ResultSet [[VInt 0, VStr ''title'', VStr ''TEXT''], [VInt 1, VStr ''year'', VStr ''INT'']], d)
     else if q = show_columns_stmt ''movies''
     then Inr (ResultSet [[VStr ''title'', VStr ''text''], [VStr ''year'', VStr ''int'']], d)
     else Inl (DriverError ''no such table''))\<rparr>"

definition demo_mongo_cols_world :: world where
  "demo_mongo_cols_world = empty_world\<lparr>mongo_servers := [''db:27017'' \<mapsto>
     [''shop'' \<mapsto> [''orders'' \<mapsto> [[(''_id'', VOid 0), (''item'', VStr ''pen'')]], ''empty'' \<mapsto> []]]]\<rparr>"

subsection \<open>Behaviour\<close>

lemma then_col_Inr [simp]: "then_col i (Inr rows, w) = (col_at i rows, w)"
  by (simp add: then_col_def)

lemma then_col_Inl [simp]: "then_col i (Inl e, w) = (Inl e, w)"
  by (simp add: then_col_def)

lemma col_at_ok: "list_all (\<lambda>r. i < length r) rows \<Longrightarrow> col_at i rows = Inr (map (\<lambda>r. r ! i) rows)"
  by (simp add: col_at_def)

lemma get_column_names_Inl:
  "column_query X t conn w = (Inl e, w') \<Longrightarrow> is_exception e \<Longrightarrow>
   get_column_names X t conn w = (Inr [], show_msg (StErrorExc ''Error retrieving column names: '' e) w')"
  by (simp add: get_column_names_def)

lemma get_column_names_Inr:
  "column_query X t conn w = (Inr cs, w') \<Longrightarrow> get_column_names X t conn w = (Inr cs, w')"
  by (simp add: get_column_names_def)

text \<open>C25: On a SQLite file the columns are field 1 of the rows PRAGMA table_info(t)
  returns, and the world is unchanged (the statement is not committed).\<close>

theorem get_column_names_sqlite:
  assumes "sqlite_open w p = Inr d"
    "sql_engine X (SqliteConn p) (table_info_stmt t) d = Inr (ResultSet rows, d')"
    "list_all (\<lambda>r. 1 < length r) rows"
  shows "get_column_names X t (SqliteConn p) w = (Inr (map (\<lambda>r. r ! 1) rows), w)"
  using assms
  by (intro get_column_names_Inr) (simp add: column_query_def sqlite_rows_def col_at_ok)

theorem get_column_names_sqlite_witness:
  "get_column_names demo_catalog_ext ''movies'' (SqliteConn ''m.db'') empty_world =
     (Inr [VStr ''title'', VStr ''year''], empty_world)"
proof -
  have o: "sqlite_open empty_world ''m.db'' = Inr Map.empty"
    by (simp add: sqlite_open_def file_at_def empty_world_def)
  have e: "sql_engine demo_catalog_ext (SqliteConn ''m.db'') (table_info_stmt ''movies'') Map.empty =
    Inr (ResultSet [[VInt 0, VStr ''title'', VStr ''TEXT''], [VInt 1, VStr ''year'', VStr ''INT'']], Map.empty)"
    by (simp add: demo_catalog_ext_def)
  show ?thesis
    using get_column_names_sqlite [OF o e] by simp
qed

text \<open>C26: A SQLite handle on a file that is not a database (such as an uploaded CSV
  file) yields no columns and the error "file is not a database", whatever the table
  name.\<close>

theorem get_column_names_not_a_database:
  assumes "file_at w p = Some (DataFile bs)" "bs \<noteq> []"
  shows "get_column_names X t (SqliteConn p) w =
    (Inr [], show_msg (StErrorExc ''Error retrieving column names: '' (DriverError ''file is not a database'')) w)"
  using assms
  by (intro get_column_names_Inl) (simp_all add: column_query_def sqlite_rows_def sqlite_open_def is_exception_def)

theorem get_column_names_not_a_database_witness:
  "get_column_names demo_ext ''movies'' (SqliteConn ''database_files/m.csv'')
     (empty_world\<lparr>files := [''database_files/m.csv'' \<mapsto> DataFile ''title\<newline>Heat'']\<rparr>) =
    (Inr [], show_msg (StErrorExc ''Error retrieving column names: '' (DriverError ''file is not a database''))
       (empty_world\<lparr>files := [''database_files/m.csv'' \<mapsto> DataFile ''title\<newline>Heat'']\<rparr>))"
  using get_column_names_not_a_database [of "empty_world\<lparr>files := [''database_files/m.csv'' \<mapsto>
      DataFile ''title\<newline>Heat'']\<rparr>" "''database_files/m.csv''" "''title\<newline>Heat''" demo_ext "''movies''"]
  by (simp add: file_at_def norm_path_def)



lemma mongo_columns_db:
  "mongo_servers w srv = Some s \<Longrightarrow> s dbn = Some db \<Longrightarrow>
   mongo_columns w srv (Some dbn) t =
     (case db t of None \<Rightarrow> Inr []
      | Some [] \<Rightarrow> Inl (AttributeError ''NoneType object has no attribute keys'')
      | Some (d # _) \<Rightarrow> Inr (map (VStr \<circ> fst) d))"
  by (simp add: mongo_columns_def)

text \<open>C13: On MongoDB an absent or empty collection gives no columns; an absent one
  silently, an empty one with the error of None.keys() shown.\<close>

theorem get_column_names_mongo_empty:
  assumes "mongo_servers w srv = Some s" "s dbn = Some db" "db t = None \<or> db t = Some []"
  shows "fst (get_column_names X t (MongoConn srv (Some dbn)) w) = Inr [] \<and>
    (ui (snd (get_column_names X t (MongoConn srv (Some dbn)) w)) = ui w \<longleftrightarrow> db t = None)"
  using assms(3)
  by (auto simp: get_column_names_def column_query_def mongo_columns_db [OF assms(1,2)] is_exception_def)

theorem get_column_names_mongo_empty_witness:
  "fst (get_column_names demo_ext ''empty'' (MongoConn ''db:27017'' (Some ''shop'')) demo_mongo_cols_world) = Inr [] \<and>
   (ui (snd (get_column_names demo_ext ''empty'' (MongoConn ''db:27017'' (Some ''shop'')) demo_mongo_cols_world)) =
      ui demo_mongo_cols_world \<longleftrightarrow>
    [''orders'' \<mapsto> [[(''_id'', VOid 0), (''item'', VStr ''pen'')]], ''empty'' \<mapsto> []] ''empty'' = None)"
  using get_column_names_mongo_empty [of demo_mongo_cols_world "''db:27017''" _ "''shop''"
      "[''orders'' \<mapsto> [[(''_id'', VOid 0), (''item'', VStr ''pen'')]], ''empty'' \<mapsto> []]" "''empty''" demo_ext]
  by (simp add: demo_mongo_cols_world_def)

text \<open>C27: On MongoDB the columns of a non-empty collection are the keys of its first
  document, in order; a client whose URI names no default database gives no columns
  and shows ConfigurationError.\<close>

theorem get_column_names_mongo_keys:
  assumes "mongo_servers w srv = Some s" "s dbn = Some db" "db t = Some (d # ds)"
  shows "get_column_names X t (MongoConn srv (Some dbn)) w = (Inr (map (VStr \<circ> fst) d), w) \<and>
    get_column_names X t (MongoConn srv None) w =
      (Inr [], show_msg (StErrorExc ''Error retrieving column names: '' ConfigurationError) w)"
  using assms
  by (simp add: get_column_names_def column_query_def mongo_columns_db [OF assms(1,2)])
    (simp add: mongo_columns_def is_exception_def)

theorem get_column_names_mongo_keys_witness:
  "get_column_names demo_ext ''orders'' (MongoConn ''db:27017'' (Some ''shop'')) demo_mongo_cols_world =
     (Inr [VStr ''_id'', VStr ''item''], demo_mongo_cols_world) \<and>
   get_column_names demo_ext ''orders'' (MongoConn ''db:27017'' None) demo_mongo_cols_world =
     (Inr [], show_msg (StErrorExc ''Error retrieving column names: '' ConfigurationError) demo_mongo_cols_world)"
  using get_column_names_mongo_keys [of demo_mongo_cols_world "''db:27017''" _ "''shop''"
      "[''orders'' \<mapsto> [[(''_id'', VOid 0), (''item'', VStr ''pen'')]], ''empty'' \<mapsto> []]" "''orders''"
      "[(''_id'', VOid 0), (''item'', VStr ''pen'')]" "[]" demo_ext]
  by (simp add: demo_mongo_cols_world_def)

subsection \<open>Frame\<close>

lemma get_column_names_files: "files (snd (get_column_names X t conn w)) = files w"
  by (auto simp: get_column_names_def column_query_def then_col_def rel_fetch_def Let_def
      split: handle.split prod.split sum.split option.split stmt_result.split)

lemma get_column_names_exceptions_only:
  "exceptions_only X \<Longrightarrow> \<exists>cs. fst (get_column_names X t conn w) = Inr cs"
  by (auto simp: exceptions_only_def get_column_names_def column_query_def then_col_def rel_fetch_def
      sqlite_rows_def mongo_columns_def col_at_def sqlite_open_def catch_exception_def is_exception_def Let_def
      split: handle.split prod.split sum.split option.split stmt_result.split list.split disk_file.split if_splits)

end
