(* ===== verification/Pipeline.thy ===== *)
theory Pipeline
  imports Broker Introspect
begin

text \<open>
  The request pipeline of the query page: the \<open>if submit:\<close> block of
  \<open>src/BOT/pages/app.py\<close> (lines 185-241). One press of the button saves the upload
  under \<open>database_files/\<close>, opens a handle (\<open>connect_to_database\<close>), lists the columns
  of the named table (\<open>get_column_names\<close>), and, when there are columns, asks the LLM
  for a query (\<open>get_response\<close> with the SQL prompt), shows and runs it
  (\<open>read_query\<close>), shows the rows, asks the LLM for an explanation and shows it; the
  handle is closed at the end. An exception the page does not catch ends the run with
  the world as it is at that point (Streamlit shows the traceback): \<open>read_query\<close>
  and \<open>get_column_names\<close> catch \<open>Exception\<close> only, so a \<open>SystemExit\<close> raised by the
  evaluated query text ends the run before the explanation and before
  \<open>conn.close()\<close>.

  Besides the world, a run records the calls it makes to the outside, in order
  (\<open>call\<close>): the LLM requests with their prompt and input, the query text handed to the
  executor, and the closing of the handle. The LLM is \<open>llm\<close> of \<open>ext\<close>; the literal
  prompt texts are kept word for word, with the indentation of the triple-quoted
  strings reduced to single spaces.
\<close>

subsection \<open>Inputs and calls\<close>

text \<open>The widgets of lines 177-182: the selected backend, the connection string
  (\<open>""\<close> when left empty), the uploaded file (its name and content), the table name
  (\<open>"movies"\<close> by default) and the question.\<close>

record page_input =
  in_db_type :: string
  in_conn_str :: string
  in_upload :: "(string \<times> disk_file) option"
  in_table :: string
  in_question :: string

datatype call =
    CallLlm "string list" string
  | CallExecute string
  | CallClose handle

type_synonym run = "(exc + unit) \<times> world \<times> call list"

subsection \<open>The steps\<close>

text \<open>\<open>db_path = f"database_files/{upload_file.name}"\<close>, \<open>os.makedirs\<close>, and the file
  written with the upload's bytes, replacing a file of the same (resolved) name.\<close>

definition save_upload :: "(string \<times> disk_file) option \<Rightarrow> world \<Rightarrow> path option \<times> world" where
  "save_upload up w =
     (case up of
        None \<Rightarrow> (None, w)
      | Some (n, f) \<Rightarrow>
          let p = ''database_files/'' @ n in (Some p, write_file p f w))"

fun vstrs :: "dbval list \<Rightarrow> string list option" where
  "vstrs [] = Some []"
| "vstrs (VStr s # vs) = (case vstrs vs of None \<Rightarrow> None | Some ss \<Rightarrow> Some (s # ss))"
| "vstrs (_ # vs) = None"

text \<open>\<open>', '.join(columns)\<close>: every item must be a \<open>str\<close>.\<close>

definition py_join :: "string \<Rightarrow> dbval list \<Rightarrow> exc + string" where
  "py_join sep vs =
     (case vstrs vs of
        None \<Rightarrow> Inl (TypeError ''sequence item: expected str instance'')
      | Some ss \<Rightarrow> Inr (py_str_join sep ss))"

definition quoted :: "string \<Rightarrow> string" where
  "quoted t = [CHR 0x27] @ t @ [CHR 0x27]"

text \<open>The prompt of lines 198-216.\<close>

definition sql_prompt :: "string \<Rightarrow> string \<Rightarrow> string list" where
  "sql_prompt t cols =
     [''You are an expert SQL Specialist. Your job is to translate natural language questions into SQL or MongoDB queries that work with the '' @ quoted t @
      '' table. The '' @ quoted t @ '' table has the following columns: '' @ cols @
      '' When writing a query: - Only use the columns mentioned above. - Do not add extra information or comments. - Use user-friendly aliases for clarity. Examples: - **Question:** How many items are in the table? **Answer:** SELECT COUNT(*) AS total_items FROM '' @ t @
      ''; - **Question:** What are the top 5 items based on a column? **Answer:** SELECT * FROM '' @ t @
      '' ORDER BY some_column DESC LIMIT 5; - **Question:** How many items are in the MongoDB collection? **Answer:** {\"$count\": \"total_items\"}'']"

text \<open>The prompt of lines 230-236.\<close>

definition explain_prompt :: "string list" where
  "explain_prompt =
     [''You are a SQL expert tasked with explaining the provided SQL or MongoDB query to a user who may not be familiar with SQL or MongoDB queries. Your explanation should be clear, concise, and easy to understand. Break down the query into its components and explain what each part does.'']"

text \<open>\<open>get_response(question, prompt)\<close> (lines 19-22): \<open>generate_content([prompt[0], question])\<close>.\<close>

definition get_response :: "ext \<Rightarrow> string \<Rightarrow> string list \<Rightarrow> string" where
  "get_response X question prompt = llm X [hd prompt] question"

text \<open>Lines 223-227: the rows as a data frame, or \<open>"No results found."\<close>.\<close>

definition show_result :: "qrow list option \<Rightarrow> world \<Rightarrow> world" where
  "show_result result w =
     (case result of
        Some rs \<Rightarrow> if rs \<noteq> [] then show_msg (StFrame rs) w else show_msg (StWrite ''No results found.'') w
      | None \<Rightarrow> show_msg (StWrite ''No results found.'') w)"

text \<open>Lines 198-239, run once the columns are known and non-empty.\<close>

definition answer :: "ext \<Rightarrow> page_input \<Rightarrow> handle \<Rightarrow> string \<Rightarrow> world \<Rightarrow> run" where
  "answer X inp h cols w =
     (let prompt = sql_prompt (in_table inp) cols;
          response = get_response X (in_question inp) prompt;
          w1 = show_msg (StCode response) (show_msg (StSubheader ''The Generated SQL/MongoDB Query is:'') w)
      in case read_query X response h (in_table inp) w1 of
           (Inl e, w2) \<Rightarrow> (Inl e, w2, [CallLlm [hd prompt] (in_question inp), CallExecute response])
         | (Inr result, w2) \<Rightarrow>
             (let w3 = show_result result (show_msg (StSubheader ''The Response is:'') w2);
                  explain = get_response X response explain_prompt;
                  w4 = show_msg (StWrite explain) (show_msg (StSubheader ''Explanation:'') w3)
              in (Inr (), w4, [CallLlm [hd prompt] (in_question inp), CallExecute response,
                               CallLlm [hd explain_prompt] response])))"

text \<open>The whole block of lines 185-241.\<close>

definition app_submit :: "ext \<Rightarrow> page_input \<Rightarrow> world \<Rightarrow> run" where
  "app_submit X inp w =
     (case save_upload (in_upload inp) w of
        (db_path, w1) \<Rightarrow>
          (case connect_to_database X (in_db_type inp) (Some (in_conn_str inp)) db_path w1 of
             (Inl e, w2) \<Rightarrow> (Inl e, w2, [])
           | (Inr None, w2) \<Rightarrow> (Inr (), w2, [])
           | (Inr (Some h), w2) \<Rightarrow>
               (case get_column_names X (in_table inp) h w2 of
                  (Inl e, w3) \<Rightarrow> (Inl e, w3, [])
                | (Inr cols, w3) \<Rightarrow>
                    if cols = [] then (Inr (), w3, [CallClose h])
                    else
                      (case py_join '', '' cols of
                         Inl e \<Rightarrow> (Inl e, w3, [])
                       | Inr ctext \<Rightarrow>
                           (case answer X inp h ctext w3 of
                              (Inl e, w4, cs) \<Rightarrow> (Inl e, w4, cs)
                            | (Inr _, w4, cs) \<Rightarrow> (Inr (), w4, cs @ [CallClose h]))))))"

subsection \<open>Examples\<close>

definition demo_mongo_input :: page_input where
  "demo_mongo_input = \<lparr>in_db_type = ''MongoDB'', in_conn_str = ''mongodb://db:27017/shop'',
     in_upload = None, in_table = ''orders'', in_question = ''Which items were ordered?''\<rparr>"

definition demo_sqlite_input :: page_input where
  "demo_sqlite_input = \<lparr>in_db_type = ''SQLite'', in_conn_str = [],
     in_upload = Some (''movies.csv'', DataFile ''title\<newline>Heat''), in_table = ''movies'',
     in_question = ''How many movies are there?''\<rparr>"

text \<open>A collaborator record whose \<open>eval\<close> raises \<open>SystemExit\<close>, as \<open>eval("exit()")\<close> does.\<close>

definition demo_exit_ext :: ext where
  "demo_exit_ext = demo_ext\<lparr>py_eval := (\<lambda>q w. (Inl SystemExit, w))\<rparr>"

subsection \<open>The runs\<close>

lemma vstrs_map: "vstrs (map VStr ss) = Some ss"
  by (induction ss) auto

lemma py_join_vstrs: "py_join sep (map VStr ss) = Inr (py_str_join sep ss)"
  by (simp add: py_join_def vstrs_map)

lemma app_submit_connected:
  assumes "save_upload (in_upload inp) w = (p, w1)"
    "connect_to_database X (in_db_type inp) (Some (in_conn_str inp)) p w1 = (Inr (Some h), w2)"
    "get_column_names X (in_table inp) h w2 = (Inr cols, w3)"
  shows "app_submit X inp w =
    (if cols = [] then (Inr (), w3, [CallClose h])
     else case py_join '', '' cols of
       Inl e \<Rightarrow> (Inl e, w3, [])
     | Inr ctext \<Rightarrow>
         (case answer X inp h ctext w3 of
            (Inl e, w4, cs) \<Rightarrow> (Inl e, w4, cs)
          | (Inr _, w4, cs) \<Rightarrow> (Inr (), w4, cs @ [CallClose h])))"
  using assms by (simp add: app_submit_def split: prod.split sum.split)

lemma answer_exceptions_only:
  assumes "exceptions_only X"
  shows "\<exists>w' pre. answer X inp h cols w =
    (Inr (), w',
     [CallLlm [hd (sql_prompt (in_table inp) cols)] (in_question inp),
      CallExecute (get_response X (in_question inp) (sql_prompt (in_table inp) cols)),
      CallLlm [hd explain_prompt] (get_response X (in_question inp) (sql_prompt (in_table inp) cols))]) \<and>
    ui w' = pre @ [StSubheader ''Explanation:'',
      StWrite (get_response X (get_response X (in_question inp) (sql_prompt (in_table inp) cols))
                 explain_prompt)]"
proof -
  let ?r = "get_response X (in_question inp) (sql_prompt (in_table inp) cols)"
  let ?w1 = "show_msg (StCode ?r) (show_msg (StSubheader ''The Generated SQL/MongoDB Query is:'') w)"
  obtain res w2 where q: "read_query X ?r h (in_table inp) ?w1 = (Inr res, w2)"
    using exceptions_only_read_query [OF assms, of ?r h "in_table inp" ?w1]
    by (metis prod.collapse)
  show ?thesis
    by (simp only: answer_def Let_def q) (simp add: show_msg_def)
qed

text \<open>C7: When the broker returns a handle, the table has columns (strings) and the
  collaborators raise Exceptions only, one press of the button runs the whole chain to
  its end: the LLM is asked once with the SQL prompt built from the table name and the
  comma-separated columns, exactly its answer is handed to the executor, the LLM is
  asked to explain exactly that answer, the explanation is the last thing shown, and the
  handle is closed last.\<close>

theorem app_submit_answers:
  assumes "exceptions_only X" "save_upload (in_upload inp) w = (p, w1)"
    "connect_to_database X (in_db_type inp) (Some (in_conn_str inp)) p w1 = (Inr (Some h), w2)"
    "get_column_names X (in_table inp) h w2 = (Inr (map VStr ss), w3)" "ss \<noteq> []"
  shows "\<exists>w' pre. app_submit X inp w =
    (Inr (), w',
     [CallLlm [hd (sql_prompt (in_table inp) (py_str_join '', '' ss))] (in_question inp),
      CallExecute (get_response X (in_question inp) (sql_prompt (in_table inp) (py_str_join '', '' ss))),
      CallLlm [hd explain_prompt] (get_response X (in_question inp) (sql_prompt (in_table inp) (py_str_join '', '' ss))),
      CallClose h]) \<and>
    ui w' = pre @ [StSubheader ''Explanation:'',
      StWrite (get_response X (get_response X (in_question inp) (sql_prompt (in_table inp) (py_str_join '', '' ss)))
                 explain_prompt)]"
  using app_submit_connected [OF assms(2-4)] assms(5)
    answer_exceptions_only [OF assms(1), of inp h "py_str_join '', '' ss" w3]
  by (auto simp: py_join_vstrs)

lemma demo_mongo_connect:
  "connect_to_database demo_ext ''MongoDB'' (Some ''mongodb://db:27017/shop'') None demo_mongo_cols_world =
    (Inr (Some (MongoConn ''db:27017'' (Some ''shop''))), demo_mongo_cols_world)"
proof -
  have "mongo_client (Some ''mongodb://db:27017/shop'') = Inr (MongoConn ''db:27017'' (Some ''shop''))"
    by code_simp
  then show ?thesis
    by (simp add: connect_to_database_def connect_with_mongo py_str_defs)
qed

lemma demo_mongo_columns:
  "get_column_names demo_ext ''orders'' (MongoConn ''db:27017'' (Some ''shop'')) demo_mongo_cols_world =
    (Inr (map VStr [''_id'', ''item'']), demo_mongo_cols_world)"
  by (simp add: get_column_names_def column_query_def mongo_columns_def demo_mongo_cols_world_def)

lemma demo_ext_exceptions_only: "exceptions_only demo_ext"
  by (simp add: exceptions_only_def demo_ext_def)

theorem app_submit_answers_witness:
  "exceptions_only demo_ext \<and> (\<exists>w' pre. app_submit demo_ext demo_mongo_input demo_mongo_cols_world =
    (Inr (), w',
     [CallLlm [hd (sql_prompt (in_table demo_mongo_input) (py_str_join '', '' [''_id'', ''item'']))]
        (in_question demo_mongo_input),
      CallExecute (get_response demo_ext (in_question demo_mongo_input)
        (sql_prompt (in_table demo_mongo_input) (py_str_join '', '' [''_id'', ''item'']))),
      CallLlm [hd explain_prompt] (get_response demo_ext (in_question demo_mongo_input)
        (sql_prompt (in_table demo_mongo_input) (py_str_join '', '' [''_id'', ''item'']))),
      CallClose (MongoConn ''db:27017'' (Some ''shop''))]) \<and>
    ui w' = pre @ [StSubheader ''Explanation:'',
      StWrite (get_response demo_ext (get_response demo_ext (in_question demo_mongo_input)
        (sql_prompt (in_table demo_mongo_input) (py_str_join '', '' [''_id'', ''item'']))) explain_prompt)])"
proof -
  have s: "save_upload (in_upload demo_mongo_input) demo_mongo_cols_world = (None, demo_mongo_cols_world)"
    by (simp add: save_upload_def demo_mongo_input_def)
  have c: "connect_to_database demo_ext (in_db_type demo_mongo_input) (Some (in_conn_str demo_mongo_input))
      None demo_mongo_cols_world = (Inr (Some (MongoConn ''db:27017'' (Some ''shop''))), demo_mongo_cols_world)"
    using demo_mongo_connect by (simp add: demo_mongo_input_def)
  have g: "get_column_names demo_ext (in_table demo_mongo_input) (MongoConn ''db:27017'' (Some ''shop''))
      demo_mongo_cols_world = (Inr (map VStr [''_id'', ''item'']), demo_mongo_cols_world)"
    using demo_mongo_columns by (simp add: demo_mongo_input_def)
  have "\<exists>w' pre. app_submit demo_ext demo_mongo_input demo_mongo_cols_world =
    (Inr (), w',
     [CallLlm [hd (sql_prompt (in_table demo_mongo_input) (py_str_join '', '' [''_id'', ''item'']))]
        (in_question demo_mongo_input),
      CallExecute (get_response demo_ext (in_question demo_mongo_input)
        (sql_prompt (in_table demo_mongo_input) (py_str_join '', '' [''_id'', ''item'']))),
      CallLlm [hd explain_prompt] (get_response demo_ext (in_question demo_mongo_input)
        (sql_prompt (in_table demo_mongo_input) (py_str_join '', '' [''_id'', ''item'']))),
      CallClose (MongoConn ''db:27017'' (Some ''shop''))]) \<and>
    ui w' = pre @ [StSubheader ''Explanation:'',
      StWrite (get_response demo_ext (get_response demo_ext (in_question demo_mongo_input)
        (sql_prompt (in_table demo_mongo_input) (py_str_join '', '' [''_id'', ''item'']))) explain_prompt)]"
    by (rule app_submit_answers [OF demo_ext_exceptions_only s c g]) simp
  with demo_ext_exceptions_only show ?thesis by blast
qed

text \<open>C21: On MongoDB the LLM's answer is run by Python's eval: when it raises SystemExit
  (the answer exit()), the exception passes both handlers and ends the run right after
  the query is shown: the LLM is never asked for the explanation and the handle is never
  closed.\<close>

theorem app_submit_eval_exit:
  assumes "save_upload (in_upload inp) w = (p, w1)"
    "connect_to_database X (in_db_type inp) (Some (in_conn_str inp)) p w1 =
       (Inr (Some (MongoConn srv (Some dbn))), w2)"
    "get_column_names X (in_table inp) (MongoConn srv (Some dbn)) w2 = (Inr (map VStr ss), w3)" "ss \<noteq> []"
    "in_table inp \<noteq> []"
    "\<forall>v. fst (py_eval X (clean_query (get_response X (in_question inp)
            (sql_prompt (in_table inp) (py_str_join '', '' ss)))) v) = Inl SystemExit"
  shows "\<exists>w'. app_submit X inp w =
    (Inl SystemExit, w',
     [CallLlm [hd (sql_prompt (in_table inp) (py_str_join '', '' ss))] (in_question inp),
      CallExecute (get_response X (in_question inp) (sql_prompt (in_table inp) (py_str_join '', '' ss)))])"
proof -
  let ?r = "get_response X (in_question inp) (sql_prompt (in_table inp) (py_str_join '', '' ss))"
  let ?w1 = "show_msg (StCode ?r) (show_msg (StSubheader ''The Generated SQL/MongoDB Query is:'') w3)"
  obtain w' where q: "read_query X ?r (MongoConn srv (Some dbn)) (in_table inp) ?w1 = (Inl SystemExit, w')"
    using read_query_eval_exit [OF assms(5), of X ?r ?w1 srv dbn] assms(6) by (metis prod.collapse)
  have "answer X inp (MongoConn srv (Some dbn)) (py_str_join '', '' ss) w3 =
    (Inl SystemExit, w', [CallLlm [hd (sql_prompt (in_table inp) (py_str_join '', '' ss))] (in_question inp),
      CallExecute ?r])"
    by (simp only: answer_def Let_def q) simp
  then show ?thesis
    using app_submit_connected [OF assms(1-3)] assms(4) by (simp add: py_join_vstrs)
qed

theorem app_submit_eval_exit_witness:
  "\<exists>w'. app_submit demo_exit_ext demo_mongo_input demo_mongo_cols_world =
    (Inl SystemExit, w',
     [CallLlm [hd (sql_prompt ''orders'' (py_str_join '', '' [''_id'', ''item'']))] ''Which items were ordered?'',
      CallExecute ''Which items were ordered?''])"
proof -
  have s: "save_upload (in_upload demo_mongo_input) demo_mongo_cols_world = (None, demo_mongo_cols_world)"
    by (simp add: save_upload_def demo_mongo_input_def)
  have m: "mongo_client (Some ''mongodb://db:27017/shop'') = Inr (MongoConn ''db:27017'' (Some ''shop''))"
    by code_simp
  have c: "connect_to_database demo_exit_ext (in_db_type demo_mongo_input) (Some (in_conn_str demo_mongo_input))
      None demo_mongo_cols_world = (Inr (Some (MongoConn ''db:27017'' (Some ''shop''))), demo_mongo_cols_world)"
    using m by (simp add: connect_to_database_def connect_with_mongo py_str_defs demo_mongo_input_def)
  have g: "get_column_names demo_exit_ext (in_table demo_mongo_input) (MongoConn ''db:27017'' (Some ''shop''))
      demo_mongo_cols_world = (Inr (map VStr [''_id'', ''item'']), demo_mongo_cols_world)"
    by (simp add: get_column_names_def column_query_def mongo_columns_def demo_mongo_cols_world_def
        demo_mongo_input_def)
  have r: "get_response demo_exit_ext (in_question demo_mongo_input) p = ''Which items were ordered?''" for p
    by (simp add: get_response_def demo_exit_ext_def demo_ext_def demo_mongo_input_def)
  show ?thesis
    using app_submit_eval_exit [OF s c g] unfolding r
    by (simp add: demo_exit_ext_def demo_mongo_input_def)
qed

text \<open>C17: When the table has no columns (absent, empty, or an error was shown), the
  page asks the LLM nothing and runs no query; it only closes the handle.\<close>

theorem app_submit_no_columns:
  assumes "save_upload (in_upload inp) w = (p, w1)"
    "connect_to_database X (in_db_type inp) (Some (in_conn_str inp)) p w1 = (Inr (Some h), w2)"
    "get_column_names X (in_table inp) h w2 = (Inr [], w3)"
  shows "app_submit X inp w = (Inr (), w3, [CallClose h])"
  using app_submit_connected [OF assms] by simp

theorem app_submit_no_columns_witness:
  "app_submit demo_ext (demo_mongo_input\<lparr>in_table := ''missing''\<rparr>) demo_mongo_cols_world =
    (Inr (), demo_mongo_cols_world, [CallClose (MongoConn ''db:27017'' (Some ''shop''))])"
proof -
  have s: "save_upload (in_upload (demo_mongo_input\<lparr>in_table := ''missing''\<rparr>)) demo_mongo_cols_world =
      (None, demo_mongo_cols_world)"
    by (simp add: save_upload_def demo_mongo_input_def)
  have c: "connect_to_database demo_ext (in_db_type (demo_mongo_input\<lparr>in_table := ''missing''\<rparr>))
      (Some (in_conn_str (demo_mongo_input\<lparr>in_table := ''missing''\<rparr>))) None demo_mongo_cols_world =
      (Inr (Some (MongoConn ''db:27017'' (Some ''shop''))), demo_mongo_cols_world)"
    using demo_mongo_connect by (simp add: demo_mongo_input_def)
  have g: "get_column_names demo_ext (in_table (demo_mongo_input\<lparr>in_table := ''missing''\<rparr>))
      (MongoConn ''db:27017'' (Some ''shop'')) demo_mongo_cols_world = (Inr [], demo_mongo_cols_world)"
    by (simp add: get_column_names_def column_query_def mongo_columns_def demo_mongo_cols_world_def)
  show ?thesis
    by (rule app_submit_no_columns [OF s c g])
qed

text \<open>C22: With the SQLite backend, app.py opens the uploaded file itself as the
  database; an uploaded CSV file (non-empty, not a SQLite file) is never a database,
  so the page only shows "file is not a database" and never reaches the LLM.\<close>

theorem app_submit_sqlite_csv:
  assumes "in_db_type inp = ''SQLite''" "in_upload inp = Some (n, DataFile bs)" "bs \<noteq> []"
  shows "\<exists>w'. app_submit X inp w =
    (Inr (), w', [CallClose (SqliteConn (''database_files/'' @ n))]) \<and>
    ui w' = ui w @ [StErrorExc ''Error retrieving column names: '' (DriverError ''file is not a database'')]"
proof -
  let ?p = "''database_files/'' @ n"
  let ?w1 = "write_file ?p (DataFile bs) w"
  have s: "save_upload (in_upload inp) w = (Some ?p, ?w1)"
    using assms(2) by (simp add: save_upload_def Let_def)
  have c: "connect_to_database X (in_db_type inp) (Some (in_conn_str inp)) (Some ?p) ?w1 =
    (Inr (Some (SqliteConn ?p)), ?w1)"
    using assms(1) by (simp add: connect_to_database_def connect_with_def py_str_defs)
  have g: "get_column_names X (in_table inp) (SqliteConn ?p) ?w1 =
    (Inr [], show_msg (StErrorExc ''Error retrieving column names: '' (DriverError ''file is not a database'')) ?w1)"
    using assms(3) by (intro get_column_names_not_a_database) (simp_all add: file_at_def write_file_def)
  show ?thesis
    using app_submit_connected [OF s c g] by simp
qed

theorem app_submit_sqlite_csv_witness:
  "\<exists>w'. app_submit demo_ext demo_sqlite_input empty_world =
    (Inr (), w', [CallClose (SqliteConn (''database_files/'' @ ''movies.csv''))]) \<and>
    ui w' = ui empty_world @ [StErrorExc ''Error retrieving column names: '' (DriverError ''file is not a database'')]"
  by (rule app_submit_sqlite_csv [of demo_sqlite_input "''movies.csv''" "''title\<newline>Heat''"])
    (simp_all add: demo_sqlite_input_def)

subsection \<open>Frame: the files a press of the button may change\<close>

lemma show_result_files [simp]: "files (show_result r w) = files w"
  by (simp add: show_result_def split: option.split)

lemma answer_files:
  "eval_keeps_file X x \<Longrightarrow> \<forall>q. h = SqliteConn q \<longrightarrow> norm_path q \<noteq> x \<Longrightarrow>
   files (fst (snd (answer X inp h c w))) x = files w x"
proof -
  assume e: "eval_keeps_file X x" and h: "\<forall>q. h = SqliteConn q \<longrightarrow> norm_path q \<noteq> x"
  have "read_query X r h t v = (res, v') \<Longrightarrow> files v' x = files v x" for r t v res v'
    using read_query_files [OF e h, of r t v] by simp
  then show ?thesis by (auto simp: answer_def Let_def split: prod.split sum.split)
qed

lemma save_upload_files:
  "save_upload up w = (p, w1) \<Longrightarrow> (\<forall>n f. up = Some (n, f) \<longrightarrow> norm_path (''database_files/'' @ n) \<noteq> x) \<Longrightarrow>
   files w1 x = files w x \<and> (\<forall>q. p = Some q \<longrightarrow> norm_path q \<noteq> x)"
  by (auto simp: save_upload_def Let_def write_file_def split: option.splits)

lemma app_submit_after_upload:
  assumes e: "eval_keeps_file X x" and s: "save_upload (in_upload inp) w = (p, w1)"
    and x: "\<forall>q. p = Some q \<longrightarrow> in_db_type inp = ''SQLite'' \<longrightarrow> norm_path q \<noteq> x"
  shows "files (fst (snd (app_submit X inp w))) x = files w1 x"
proof -
  obtain r w2 where c: "connect_to_database X (in_db_type inp) (Some (in_conn_str inp)) p w1 = (r, w2)"
    by fastforce
  have f2: "files w2 = files w1"
    using connect_with_files [of "app_cfg X" X "in_db_type inp" "Some (in_conn_str inp)" p w1] c
    by (simp add: connect_to_database_def)
  show ?thesis
  proof (cases r)
    case (Inl e)
    then show ?thesis using s c f2 by (simp add: app_submit_def)
  next
    case (Inr ho)
    show ?thesis
    proof (cases ho)
      case None
      then show ?thesis using s c f2 Inr by (simp add: app_submit_def)
    next
      case (Some h)
      have c': "connect_to_database X (in_db_type inp) (Some (in_conn_str inp)) p w1 = (Inr (Some h), w2)"
        using c Inr Some by simp
      have hq: "\<forall>q. h = SqliteConn q \<longrightarrow> norm_path q \<noteq> x"
      proof (intro allI impI)
        fix q
        assume "h = SqliteConn q"
        with c' have "connect_with (app_cfg X) X (in_db_type inp) (Some (in_conn_str inp)) p w1 =
            (Inr (Some (SqliteConn q)), w2)"
          by (simp add: connect_to_database_def)
        then have "in_db_type inp = ''SQLite'' \<and> p = Some q" by (rule connect_with_sqlite)
        with x show "norm_path q \<noteq> x" by simp
      qed
      obtain g w3 where g: "get_column_names X (in_table inp) h w2 = (g, w3)" by fastforce
      have f3: "files w3 = files w2"
        using get_column_names_files [of X "in_table inp" h w2] g by simp
      show ?thesis
      proof (cases g)
        case (Inl e)
        then show ?thesis using s c' g f2 f3 by (simp add: app_submit_def)
      next
        case gcols: (Inr cols)
        show ?thesis
          using app_submit_connected [OF s c' g [unfolded gcols]] f2 f3
            answer_files [OF e hq]
          by (auto split: sum.split prod.split
              dest: arg_cong [where f = "\<lambda>r. files (fst (snd r)) x"])
      qed
    qed
  qed
qed

lemma app_submit_files:
  assumes e: "eval_keeps_file X x"
    and x: "\<forall>n f. in_upload inp = Some (n, f) \<longrightarrow> norm_path (''database_files/'' @ n) \<noteq> x"
  shows "files (fst (snd (app_submit X inp w))) x = files w x"
proof -
  obtain p w1 where s: "save_upload (in_upload inp) w = (p, w1)" by fastforce
  from save_upload_files [OF s x] have "files w1 x = files w x"
    and "\<forall>q. p = Some q \<longrightarrow> norm_path q \<noteq> x" by auto
  with app_submit_after_upload [OF e s] show ?thesis by simp
qed

end
