(* ===== verification/Pages.thy ===== *)
theory Pages
  imports Credentials Pipeline
begin

text \<open>
  The pages and the Streamlit session. \<open>src/BOT/main.py\<close> (the signup/login page) and
  \<open>src/BOT/pages/app.py\<close> (the query page) form one multipage app with one session:
  \<open>app_a\<close> is its state (the page shown, the session dictionary, the world) and
  \<open>a_step\<close> its step relation, one rule per thing a user can do: run the login page with
  a menu choice and a button, open a page from the sidebar (Streamlit lists every page
  of \<open>pages/\<close> there), press the query page's button with inputs from a given set
  (\<open>\<lambda>_. True\<close>: any inputs). \<open>src/database_selection.py\<close> and
  \<open>src/connection.py\<close> are the older pair, meant to hand the chosen backend over
  through the session: \<open>b_step\<close> runs either of them on a shared session.
  Reachability is an inductive predicate from a start state; the invariants are
  proved by rule induction.

  Session values are the Python values the code stores: booleans, strings and
  \<open>None\<close>. Widget values that the code never reads back are not modelled.
\<close>

subsection \<open>The session\<close>

datatype sval = SBool bool | SStr string | SNone

type_synonym session = "string \<rightharpoonup> sval"

fun sval_truthy :: "sval \<Rightarrow> bool" where
  "sval_truthy (SBool b) = b"
| "sval_truthy (SStr s) = (s \<noteq> [])"
| "sval_truthy SNone = False"

text \<open>\<open>if st.session_state.get(k):\<close>\<close>

definition ss_truthy :: "session \<Rightarrow> string \<Rightarrow> bool" where
  "ss_truthy s k = (case s k of None \<Rightarrow> False | Some v \<Rightarrow> sval_truthy v)"

text \<open>A string read back from the session, \<open>None\<close> when absent or \<open>None\<close>.\<close>

definition ss_str :: "session \<Rightarrow> string \<Rightarrow> string option" where
  "ss_str s k = (case s k of Some (SStr v) \<Rightarrow> Some v | _ \<Rightarrow> None)"

subsection \<open>The signup/login page and the query page\<close>

datatype page = LoginPage | QueryPage

datatype menu = MenuSignup | MenuLogin

record app_a =
  a_page :: page
  a_session :: session
  a_world :: world

text \<open>One run of \<open>main.py\<close> (lines 76-100): the sidebar choice, the two text inputs and
  whether the button was pressed. A successful login sets \<open>authenticated\<close>, shows the
  success message and switches to the query page. An exception of \<open>add_user\<close> or
  \<open>login_user\<close> (no \<open>users\<close> table) is not caught.\<close>

definition main_run :: "menu \<Rightarrow> string \<Rightarrow> string \<Rightarrow> bool \<Rightarrow> session \<Rightarrow> world \<Rightarrow>
    exc + page \<times> session \<times> world" where
  "main_run choice u p pressed s w =
     (if \<not> pressed then Inr (LoginPage, s, w)
      else case choice of
        MenuSignup \<Rightarrow>
          (case add_user u p w of Inl e \<Rightarrow> Inl e | Inr w' \<Rightarrow> Inr (LoginPage, s, w'))
      | MenuLogin \<Rightarrow>
          (case login_user u p w of
             Inl e \<Rightarrow> Inl e
           | Inr (Some _) \<Rightarrow>
               Inr (QueryPage, s(''authenticated'' \<mapsto> SBool True),
                    show_msg (StSuccess ''Logged in successfully! Redirecting...'') w)
           | Inr None \<Rightarrow> Inr (LoginPage, s, show_msg (StError ''Invalid username or password'') w)))"

inductive a_step :: "(page_input \<Rightarrow> bool) \<Rightarrow> ext \<Rightarrow> app_a \<Rightarrow> app_a \<Rightarrow> bool" for I X where
  login_page:
    "a_page st = LoginPage \<Longrightarrow> main_run ch u p b (a_session st) (a_world st) = Inr (pg, s', w') \<Longrightarrow>
     a_step I X st \<lparr>a_page = pg, a_session = s', a_world = w'\<rparr>"
| navigate: "a_step I X st (st\<lparr>a_page := pg\<rparr>)"
| query_page:
    "a_page st = QueryPage \<Longrightarrow> I inp \<Longrightarrow> app_submit X inp (a_world st) = (r, w', cs) \<Longrightarrow>
     a_step I X st (st\<lparr>a_world := w'\<rparr>)"

inductive a_reach :: "(page_input \<Rightarrow> bool) \<Rightarrow> ext \<Rightarrow> world \<Rightarrow> app_a \<Rightarrow> bool" for I X w0 where
  start: "a_reach I X w0 \<lparr>a_page = LoginPage, a_session = Map.empty, a_world = w0\<rparr>"
| step: "a_reach I X w0 st \<Longrightarrow> a_step I X st st' \<Longrightarrow> a_reach I X w0 st'"

inductive_cases a_step_cases: "a_step I X st st'"

subsection \<open>The database selection page and the connection page\<close>

text \<open>The widgets of \<open>database_selection.py\<close> (lines 97-111).\<close>

record sel_input =
  sel_type :: string
  sel_conn :: string
  sel_upload :: "(string \<times> disk_file) option"
  sel_continue :: bool

text \<open>One run of \<open>database_selection.main\<close> (lines 88-132). The guard reads the key
  \<open>database_selection\<close>; without it the page shows an info and \<open>st.stop()\<close> ends the
  run. The widgets write their keys into the session when they are drawn.\<close>

definition selection_main :: "sel_input \<Rightarrow> session \<Rightarrow> world \<Rightarrow> session \<times> world" where
  "selection_main inp s w =
     (if \<not> ss_truthy s ''database_selection''
      then (s, show_msg (StInfo ''Please log in first.'') w)
      else
        let s1 = s(''database_type'' \<mapsto> SStr (sel_type inp), ''connection_string'' \<mapsto> SStr (sel_conn inp),
                   ''upload_file'' \<mapsto> (case sel_upload inp of None \<Rightarrow> SNone | Some (n, _) \<Rightarrow> SStr n))
        in if \<not> sel_continue inp then (s1, w)
           else if sel_type inp = ''Other'' then (s1, show_msg (StInfo ''Please select a valid database type.'') w)
           else if sel_conn inp \<noteq> [] \<and> sel_upload inp \<noteq> None
           then (s1, show_msg (StError ''Please choose either a connection string or upload a file, not both.'') w)
           else if sel_conn inp \<noteq> []
           then (s1(''user_db_type'' \<mapsto> SStr (sel_type inp),
                    ''user_db_connection_string'' \<mapsto> SStr (sel_conn inp), ''user_db_path'' \<mapsto> SNone), w)
           else (case sel_upload inp of
                   None \<Rightarrow> (s1, show_msg (StError ''Please provide a connection string or upload a database file.'') w)
                 | Some (n, f) \<Rightarrow>
                     let p = ''database_files/'' @ n
                     in (s1(''user_db_type'' \<mapsto> SStr (sel_type inp), ''user_db_connection_string'' \<mapsto> SNone,
                            ''user_db_path'' \<mapsto> SStr p), write_file p f w)))"

text \<open>One run of \<open>connection.main\<close> (lines 86-104): a connection for the user's
  database and one for the internal database, each when its type is in the session.\<close>

definition connect_reported :: "ext \<Rightarrow> string \<Rightarrow> string \<Rightarrow> string option \<Rightarrow> string option \<Rightarrow>
    world \<Rightarrow> (exc + unit) \<times> world" where
  "connect_reported X label t cs p w =
     (case connect_to_database_legacy X t cs p w of
        (Inl e, w') \<Rightarrow> (Inl e, w')
      | (Inr None, w') \<Rightarrow> (Inr (), w')
      | (Inr (Some _), w') \<Rightarrow> (Inr (), show_msg (StSuccess (''Successfully connected to '' @ label @ t)) w'))"

definition connection_main :: "ext \<Rightarrow> session \<Rightarrow> world \<Rightarrow> (exc + unit) \<times> world" where
  "connection_main X s w =
     (let (r1, w1) =
        (if ss_truthy s ''user_db_type''
         then connect_reported X ''user database: '' (the (ss_str s ''user_db_type''))
                (ss_str s ''user_db_connection_string'') (ss_str s ''user_db_path'') w
         else (Inr (), w))
      in case r1 of
           Inl e \<Rightarrow> (Inl e, w1)
         | Inr _ \<Rightarrow>
             (if ss_truthy s ''database_type''
              then connect_reported X ''internal database: '' (the (ss_str s ''database_type''))
                     (ss_str s ''connection_string'') (ss_str s ''file_path'') w1
              else (Inr (), w1)))"

inductive b_step :: "ext \<Rightarrow> session \<times> world \<Rightarrow> session \<times> world \<Rightarrow> bool" for X where
  selection: "b_step X (s, w) (selection_main inp s w)"
| connection: "connection_main X s w = (r, w') \<Longrightarrow> b_step X (s, w) (s, w')"

inductive b_reach :: "ext \<Rightarrow> world \<Rightarrow> session \<times> world \<Rightarrow> bool" for X w0 where
  start: "b_reach X w0 (Map.empty, w0)"
| step: "b_reach X w0 sw \<Longrightarrow> b_step X sw sw' \<Longrightarrow> b_reach X w0 sw'"

subsection \<open>The query page and the credential store\<close>

lemma creds_files:
  "files w' users_db_path = files w users_db_path \<Longrightarrow> creds w' = creds w \<and> (users_inv w' \<longleftrightarrow> users_inv w)"
  by (simp add: creds_def users_inv_def users_table_def sqlite_open_def)

lemma plain_upload_path: "CHR ''/'' \<notin> set n \<Longrightarrow> norm_path (''database_files/'' @ n) \<noteq> users_db_path"
  using norm_path_in_dir [of "''database_files''" n] by (auto simp: users_db_path_def)

lemma app_submit_creds:
  assumes "app_submit X inp w = (r, w', cs)" "eval_keeps_file X users_db_path"
    "\<forall>n f. in_upload inp = Some (n, f) \<longrightarrow> CHR ''/'' \<notin> set n"
  shows "creds w' = creds w \<and> (users_inv w' \<longleftrightarrow> users_inv w)"
proof -
  have "\<forall>n f. in_upload inp = Some (n, f) \<longrightarrow> norm_path (''database_files/'' @ n) \<noteq> users_db_path"
    using assms(3) plain_upload_path by blast
  from app_submit_files [OF assms(2) this, of w] assms(1) show ?thesis
    by (intro creds_files) simp
qed

text \<open>C9: A press of the query page's button whose upload, if any, has a plain file name
  (no /) never changes the credential store, provided the query text the page passes to
  Python's eval does not write database.db itself: the file, hence the stored user names
  and passwords and the well-formedness of the users table, are as before, whatever the
  backend, the LLM and the outcome of the run.\<close>

theorem app_submit_keeps_credentials:
  assumes "app_submit X inp w = (r, w', cs)" "eval_keeps_file X users_db_path"
    "\<forall>n f. in_upload inp = Some (n, f) \<longrightarrow> CHR ''/'' \<notin> set n"
  shows "creds w' = creds w \<and> (users_inv w' \<longleftrightarrow> users_inv w)"
  by (rule app_submit_creds [OF assms])

lemma demo_ext_eval_keeps: "eval_keeps_file demo_ext x"
  by (simp add: eval_keeps_file_def demo_ext_def)

theorem app_submit_keeps_credentials_witness:
  "eval_keeps_file demo_ext users_db_path \<and>
   creds (fst (snd (app_submit demo_ext demo_sqlite_input users_world))) = creds users_world \<and>
   (users_inv (fst (snd (app_submit demo_ext demo_sqlite_input users_world))) \<longleftrightarrow> users_inv users_world)"
  using app_submit_keeps_credentials [of demo_ext demo_sqlite_input users_world
      "fst (app_submit demo_ext demo_sqlite_input users_world)"
      "fst (snd (app_submit demo_ext demo_sqlite_input users_world))"
      "snd (snd (app_submit demo_ext demo_sqlite_input users_world))"] demo_ext_eval_keeps
  by (simp add: demo_sqlite_input_def)

text \<open>C28: The upload's name is joined to database_files/ as it is: a file uploaded
  under the name ../database.db replaces the credential store database.db with its
  bytes, on every backend but SQLite, whatever the rest of the run does (unless eval
  itself writes database.db).\<close>

theorem upload_replaces_credentials:
  assumes "in_upload inp = Some (''../database.db'', f)" "in_db_type inp \<noteq> ''SQLite''"
    "eval_keeps_file X users_db_path"
  shows "files (fst (snd (app_submit X inp w))) users_db_path = Some f"
proof -
  have n: "norm_path (''database_files/'' @ ''../database.db'') = users_db_path"
    by (simp add: norm_path_def users_db_path_def)
  have s: "save_upload (in_upload inp) w =
      (Some (''database_files/'' @ ''../database.db''), write_file (''database_files/'' @ ''../database.db'') f w)"
    using assms(1) by (simp add: save_upload_def Let_def)
  show ?thesis
    using app_submit_after_upload [OF assms(3) s] assms(2) n by simp
qed

theorem upload_replaces_credentials_witness:
  "in_upload (demo_mongo_input\<lparr>in_upload := Some (''../database.db'', DataFile ''x'')\<rparr>) =
     Some (''../database.db'', DataFile ''x'') \<and>
   in_db_type (demo_mongo_input\<lparr>in_upload := Some (''../database.db'', DataFile ''x'')\<rparr>) \<noteq> ''SQLite'' \<and>
   eval_keeps_file demo_ext users_db_path \<and>
   files (fst (snd (app_submit demo_ext (demo_mongo_input\<lparr>in_upload := Some (''../database.db'', DataFile ''x'')\<rparr>)
     users_world))) users_db_path = Some (DataFile ''x'')"
  using upload_replaces_credentials [of "demo_mongo_input\<lparr>in_upload := Some (''../database.db'', DataFile ''x'')\<rparr>"
      "DataFile ''x''" demo_ext users_world] demo_ext_eval_keeps
  by (simp add: demo_mongo_input_def)

subsection \<open>Invariants of the signup/login app\<close>

definition a_inv :: "world \<Rightarrow> app_a \<Rightarrow> bool" where
  "a_inv w0 st \<longleftrightarrow>
     users_inv (a_world st) \<and> creds w0 \<subseteq>\<^sub>m creds (a_world st) \<and>
     (ss_truthy (a_session st) ''authenticated'' \<longrightarrow> (\<exists>u p. creds (a_world st) u = Some p))"

lemma signup_spec_le: "m \<subseteq>\<^sub>m fst (signup_spec m u p)"
  by (auto simp: signup_spec_def map_le_def)

lemma creds_show_msg [simp]: "creds (show_msg m w) = creds w"
  by (simp add: creds_def)

lemma users_inv_show_msg [simp]: "users_inv (show_msg m w) = users_inv w"
  by (simp add: users_inv_def)

lemma ss_truthy_update: "ss_truthy (s(k \<mapsto> v)) k' = (if k' = k then sval_truthy v else ss_truthy s k')"
  by (simp add: ss_truthy_def)

lemma main_run_inv:
  assumes "a_inv w0 st" "main_run ch u p b (a_session st) (a_world st) = Inr (pg, s', w')"
  shows "a_inv w0 \<lparr>a_page = pg, a_session = s', a_world = w'\<rparr>"
proof -
  have ui: "users_inv (a_world st)" and le: "creds w0 \<subseteq>\<^sub>m creds (a_world st)"
    and au: "ss_truthy (a_session st) ''authenticated'' \<longrightarrow> (\<exists>u p. creds (a_world st) u = Some p)"
    using assms(1) by (auto simp: a_inv_def)
  show ?thesis
  proof (cases "b \<and> ch = MenuSignup")
    case True
    obtain w1 where a: "add_user u p (a_world st) = Inr w1" and i1: "users_inv w1"
      and c1: "creds w1 = fst (signup_spec (creds (a_world st)) u p)"
      using add_user_spec [OF ui, of u p] by blast
    have le1: "creds (a_world st) \<subseteq>\<^sub>m creds w1" using c1 signup_spec_le by simp
    have "ss_truthy (a_session st) ''authenticated'' \<longrightarrow> (\<exists>u p. creds w1 u = Some p)"
      using au le1 unfolding map_le_def by (metis domI)
    with assms(2) True a i1 map_le_trans [OF le le1] show ?thesis
      by (auto simp: a_inv_def main_run_def)
  next
    case False
    show ?thesis
    proof (cases b)
      case True
      with False have ch: "ch = MenuLogin" by (cases ch) auto
      show ?thesis
      proof (cases "login_spec (creds (a_world st)) u p")
        case l: True
        with assms(2) True ch ui le show ?thesis
          by (force simp: a_inv_def main_run_def login_user_spec [OF ui] ss_truthy_update login_spec_def)
      next
        case l: False
        with assms(2) True ch ui le au show ?thesis
          by (force simp: a_inv_def main_run_def login_user_spec [OF ui])
      qed
    next
      case False
      with assms show ?thesis by (auto simp: a_inv_def main_run_def)
    qed
  qed
qed

lemma a_step_inv:
  assumes "a_step I X st st'" "a_inv w0 st" "eval_keeps_file X users_db_path"
    "\<forall>inp n f. I inp \<longrightarrow> in_upload inp = Some (n, f) \<longrightarrow> CHR ''/'' \<notin> set n"
  shows "a_inv w0 st'"
  using assms(1,2)
proof (induction rule: a_step.induct)
  case (login_page st ch u p b pg s' w')
  then show ?case by (intro main_run_inv [OF login_page.prems login_page.hyps(2)])
next
  case (navigate st pg)
  then show ?case by (simp add: a_inv_def)
next
  case (query_page st inp r w' cs)
  then show ?case
    using app_submit_creds [OF query_page.hyps(3) assms(3)] assms(4) by (simp add: a_inv_def)
qed

text \<open>C8: In every state the signup/login app can reach from a well-formed users table,
  by any sequence of signups, logins, page switches and query-page presses whose uploads
  have plain file names (no /), the users table stays well formed, no stored credential
  is lost or changed, and the session flag authenticated is set only when the store holds
  a credential (it is set by a login whose user name and password matched a stored pair),
  provided the query texts the page passes to Python's eval do not write database.db.\<close>

theorem a_reach_inv:
  assumes "a_reach I X w0 st" "users_inv w0" "eval_keeps_file X users_db_path"
    "\<forall>inp n f. I inp \<longrightarrow> in_upload inp = Some (n, f) \<longrightarrow> CHR ''/'' \<notin> set n"
  shows "users_inv (a_world st) \<and> creds w0 \<subseteq>\<^sub>m creds (a_world st) \<and>
    (ss_truthy (a_session st) ''authenticated'' \<longrightarrow> (\<exists>u p. creds (a_world st) u = Some p))"
proof -
  from assms(1) have "a_inv w0 st"
  proof (induction rule: a_reach.induct)
    case start
    then show ?case using assms(2) by (simp add: a_inv_def ss_truthy_def)
  next
    case (step st st')
    then show ?case using a_step_inv [OF _ _ assms(3,4)] by blast
  qed
  then show ?thesis by (simp add: a_inv_def)
qed

theorem a_reach_inv_witness:
  "eval_keeps_file demo_ext users_db_path \<and>
   (\<exists>st. a_reach (\<lambda>i. in_upload i = None) demo_ext users_world st \<and> ss_truthy (a_session st) ''authenticated'' \<and>
     users_inv (a_world st) \<and> creds users_world \<subseteq>\<^sub>m creds (a_world st) \<and>
     (\<exists>u p. creds (a_world st) u = Some p))"
proof -
  let ?I = "\<lambda>i. in_upload i = None"
  have up: "\<forall>inp n f. ?I inp \<longrightarrow> in_upload inp = Some (n, f) \<longrightarrow> CHR ''/'' \<notin> set n" by simp
  obtain w1 where a: "add_user ''alice'' ''p1'' users_world = Inr w1" and i1: "users_inv w1"
    and c1: "creds w1 = fst (signup_spec (creds users_world) ''alice'' ''p1'')"
    using add_user_spec [OF users_world_inv] by blast
  have c1': "creds w1 ''alice'' = Some ''p1''"
    using c1 by (simp add: users_world_creds signup_spec_def)
  let ?s0 = "\<lparr>a_page = LoginPage, a_session = Map.empty, a_world = users_world\<rparr>"
  let ?s1 = "\<lparr>a_page = LoginPage, a_session = Map.empty, a_world = w1\<rparr>"
  let ?s2 = "\<lparr>a_page = QueryPage, a_session = [''authenticated'' \<mapsto> SBool True],
               a_world = show_msg (StSuccess ''Logged in successfully! Redirecting...'') w1\<rparr>"
  have r1: "a_reach ?I demo_ext users_world ?s1"
    by (rule a_reach.step [OF a_reach.start a_step.login_page [of ?s0 MenuSignup "''alice''" "''p1''" True]])
      (simp_all add: main_run_def a)
  have r2: "a_reach ?I demo_ext users_world ?s2"
    by (rule a_reach.step [OF r1 a_step.login_page [of ?s1 MenuLogin "''alice''" "''p1''" True]])
      (simp_all add: main_run_def login_user_spec [OF i1] login_spec_def c1')
  have t: "ss_truthy (a_session ?s2) ''authenticated''" by (simp add: ss_truthy_def)
  from a_reach_inv [OF r2 users_world_inv demo_ext_eval_keeps up] r2 t demo_ext_eval_keeps up
  show ?thesis by blast
qed

text \<open>C23: The query page does not check the session: from the start, without any login,
  a user can open it from the sidebar and every press of its button runs the whole
  request, with authenticated unset.\<close>

theorem query_page_unguarded:
  "\<exists>st. a_reach (\<lambda>_. True) X w0 st \<and> a_page st = QueryPage \<and> \<not> ss_truthy (a_session st) ''authenticated'' \<and>
     (\<forall>inp. a_reach (\<lambda>_. True) X w0 (st\<lparr>a_world := fst (snd (app_submit X inp (a_world st)))\<rparr>))"
proof -
  let ?st = "\<lparr>a_page = QueryPage, a_session = Map.empty, a_world = w0\<rparr>"
  have r: "a_reach (\<lambda>_. True) X w0 ?st"
    using a_reach.step [OF a_reach.start a_step.navigate [of "\<lambda>_. True" X _ QueryPage]] by simp
  have "a_reach (\<lambda>_. True) X w0 (?st\<lparr>a_world := fst (snd (app_submit X inp w0))\<rparr>)" for inp
    by (rule a_reach.step [OF r a_step.query_page]) (simp_all add: prod_eq_iff)
  with r show ?thesis by (intro exI [of _ ?st]) (simp add: ss_truthy_def)
qed

subsection \<open>The older pair of pages\<close>

lemma connection_main_empty: "connection_main X Map.empty w = (Inr (), w)"
  by (simp add: connection_main_def ss_truthy_def)

lemma b_step_empty:
  assumes "b_step X (Map.empty, w) sw'"
  shows "sw' = (Map.empty, show_msg (StInfo ''Please log in first.'') w) \<or> sw' = (Map.empty, w)"
  using assms
proof (cases rule: b_step.cases)
  case (selection inp)
  then show ?thesis by (simp add: selection_main_def ss_truthy_def)
next
  case (connection r w')
  then show ?thesis by (simp add: connection_main_empty)
qed

text \<open>C24: The older pages cannot hand anything over: on a session they share, any
  sequence of runs of database_selection.py and connection.py leaves the session empty
  (the selection page stops at its guard, since no code sets database_selection), opens
  no connection and changes nothing but the "Please log in first." messages it adds.\<close>

theorem legacy_pages_inert:
  assumes "b_reach X w0 (s, w)"
  shows "s = Map.empty \<and> (\<exists>k. w = w0\<lparr>ui := ui w0 @ replicate k (StInfo ''Please log in first.'')\<rparr>)"
proof -
  have "fst sw = Map.empty \<and> (\<exists>k. snd sw = w0\<lparr>ui := ui w0 @ replicate k (StInfo ''Please log in first.'')\<rparr>)"
    if "b_reach X w0 sw" for sw
    using that
  proof (induction rule: b_reach.induct)
    case start
    show ?case by (intro conjI exI [of _ 0]) simp_all
  next
    case (step sw sw')
    then obtain w k where sw: "sw = (Map.empty, w)"
      and w: "w = w0\<lparr>ui := ui w0 @ replicate k (StInfo ''Please log in first.'')\<rparr>"
      by (cases sw) auto
    from b_step_empty step.hyps(2) sw
    have "sw' = (Map.empty, show_msg (StInfo ''Please log in first.'') w) \<or> sw' = (Map.empty, w)" by simp
    then show ?case
    proof
      assume "sw' = (Map.empty, show_msg (StInfo ''Please log in first.'') w)"
      with w show ?thesis
        by (intro conjI exI [of _ "Suc k"]) (simp_all add: show_msg_def replicate_append_same)
    next
      assume "sw' = (Map.empty, w)"
      with w show ?thesis by auto
    qed
  qed
  from this [OF assms] show ?thesis by simp
qed

theorem legacy_pages_inert_witness:
  "Map.empty = (Map.empty :: session) \<and>
   (\<exists>k. show_msg (StInfo ''Please log in first.'') users_world =
      users_world\<lparr>ui := ui users_world @ replicate k (StInfo ''Please log in first.'')\<rparr>)"
proof -
  have "b_reach demo_ext users_world (selection_main
      \<lparr>sel_type = ''MySQL'', sel_conn = ''mysql://u:p@h/d'', sel_upload = None, sel_continue = True\<rparr>
      Map.empty users_world)"
    by (rule b_reach.step [OF b_reach.start b_step.selection])
  then have "b_reach demo_ext users_world (Map.empty, show_msg (StInfo ''Please log in first.'') users_world)"
    by (simp add: selection_main_def ss_truthy_def)
  from legacy_pages_inert [OF this] show ?thesis by simp
qed

end
