(* ===== verification/Spec2Isabelle.thy ===== *)
theory Spec2Isabelle
  imports Pages
begin

text \<open>
  \<^bold>\<open>A verification library for the AI-powered data-query chatbot.\<close>

  \<^emph>\<open>The program.\<close> A Streamlit application in five Python files. \<open>src/BOT/main.py\<close> is a
  signup/login page over the SQLite table \<open>users\<close> of \<open>database.db\<close>, which
  \<open>src/BOT/init_db.py\<close> creates. \<open>src/BOT/pages/app.py\<close> is the query page: one press
  of its button saves the upload under \<open>database_files/\<close>, opens a connection to one of
  four backends (\<open>connect_to_database\<close>), lists the columns of a table
  (\<open>get_column_names\<close>), asks an LLM (\<open>get_response\<close>) to translate the question into
  SQL or a MongoDB filter, cleans and runs the returned text (\<open>read_sql_query\<close>,
  \<open>read_query\<close>; on MongoDB through Python's \<open>eval\<close>), shows the rows, asks the LLM to
  explain the query and closes the connection. \<open>src/database_selection.py\<close> and
  \<open>src/connection.py\<close> are an older pair of pages, each with a copy of
  \<open>connect_to_database\<close>, meant to hand the chosen backend over through the session.

  \<^emph>\<open>How it is modelled.\<close> A shallow embedding: every operation is an executable HOL
  function on an explicit \<open>world\<close> (files by resolved path, relational servers,
  MongoDB servers, the next \<open>ObjectId\<close>, the Streamlit messages shown). An operation that
  may raise returns an \<open>outcome\<close>, the exception or the value together with the world
  at that point, so effects before an exception are kept. \<open>except Exception\<close> is
  \<open>catch_exception\<close>: it catches every exception but \<open>SystemExit\<close>. What the code
  leaves to libraries and servers is the record \<open>ext\<close>, over which every theorem is
  universally quantified: the SQL engines (result and database after a statement),
  \<open>sql_durable\<close> (what a MySQL or PostgreSQL statement commits itself, since the code
  never commits there), \<open>pandas.read_csv\<close>, Python's \<open>eval\<close> (any value or exception,
  any effect on the world), the MongoDB matcher and the LLM. pandas' \<open>to_sql\<close> is not
  left open: on a raw MySQL or PostgreSQL connection it always raises (its SQLite
  fallback's probe uses the \<open>?\<close> placeholder the drivers reject), and is modelled so.

  \<^emph>\<open>Theories.\<close>
  \<^item> \<open>Prelude\<close>, \<open>PyStr\<close>: rule collections, type names, list lemmas; the Python string
    operations the code calls (\<open>replace\<close>, \<open>strip\<close>, \<open>lower\<close>, \<open>in\<close>, \<open>endswith\<close>,
    \<open>find\<close>, \<open>partition\<close>, \<open>join\<close>), executable, with their laws.
  \<^item> \<open>Backend\<close>: values, tables, documents, files and path resolution
    (\<open>norm_path\<close>: \<open>.\<close> and \<open>..\<close> segments as \<open>open()\<close> resolves them), the handle type
    (a tagged union over the four drivers), exceptions, messages, the world, \<open>ext\<close>,
    \<open>catch_exception\<close>, SQLite open and commit.
  \<^item> \<open>Credentials\<close> (\<open>init_db.create_db\<close>, \<open>main.add_user\<close>, \<open>main.login_user\<close>): the
    statements' SQLite semantics on \<open>users\<close>, an abstract store of passwords by name
    with its contract, refinement lemmas, the table invariant kept by any sequence of
    store operations, the error path without a table.
  \<^item> \<open>UrlParse\<close>: the part of \<open>urllib.parse.urlparse\<close> the broker reads.
  \<^item> \<open>Executor\<close> (\<open>app.py\<close> 129-169): the clean-up (idempotent, removes every fence,
    keeps a language tag), each handle kind (commit on SQLite; on MySQL and PostgreSQL
    only what a statement commits itself stays; MongoDB through \<open>eval\<close>), the handler
    (Exceptions shown and turned into no rows, \<open>SystemExit\<close> propagated), \<open>read_query\<close>'s
    equal branches, frame lemmas.
  \<^item> \<open>Broker\<close> (\<open>app.py\<close> 25-99 and the two older copies, one body with a configuration
    record): dispatch, precedence of the connection string, URL credentials, the CSV
    loads (relational: always raises after the DROP; MongoDB: drop then insert, raising
    on an empty file), the error branches.
  \<^item> \<open>Introspect\<close> (\<open>app.py\<close> 101-126): the catalogue statement of each backend with
    the table name spliced in, field extraction, MongoDB's first-document keys.
  \<^item> \<open>Pipeline\<close> (\<open>app.py\<close> 185-241): one press of the button, with the outside calls
    it makes in order (LLM requests, the executed text, the close).
  \<^item> \<open>Pages\<close>: the multipage app as an inductive step relation over page, session and
    world (a run of \<open>main.py\<close>, sidebar navigation, a press of the query page's button
    with inputs from a given set), reachability and invariants by rule induction; the
    older pair of pages as a second step relation.
  \<^item> This theory: properties across the broker and the introspector (a MongoDB CSV
    load is invisible to the introspector unless \<open>MONGO_URI\<close> names the load's
    database).

  \<^emph>\<open>What the lemmas show.\<close> The credential store refines its contract and keeps its
  invariant; a press of the button keeps \<open>database.db\<close> when the upload has a plain name
  and \<open>eval\<close> does not write it, while an upload named \<open>../database.db\<close> replaces it;
  the query page is reachable without login; the older pages can never hand anything
  over; the relational CSV upload never loads; \<open>exit()\<close> answered by the LLM ends the
  run before the explanation and the close. There is no loop in the code beyond the
  structural ones over lists, so no fuel is needed: every definition is total.

  \<^emph>\<open>Not modelled.\<close> The LLM's behaviour and the Gemini API (a function of \<open>ext\<close>), the
  page layout, CSS and widget rendering, environment loading (\<open>load_dotenv\<close>: the
  environment is a field of \<open>ext\<close>), the \<open>st.stop\<close>/\<open>st.switch_page\<close> machinery beyond
  its effect on the page shown. Effects a MySQL or PostgreSQL statement leaves
  uncommitted are not seen by the next statement on the same connection (in the code
  only the catalogue statement precedes the query on a connection).
\<close>

section \<open>Properties across components\<close>

subsection \<open>The MongoDB CSV load seen by the introspector\<close>

lemma mongo_columns_show_msg [simp]: "mongo_columns (show_msg m w) = mongo_columns w"
  by (simp add: mongo_columns_def fun_eq_iff show_msg_def split: option.split)

lemma mongo_columns_next_oid [simp]: "mongo_columns (w\<lparr>next_oid := n\<rparr>) = mongo_columns w"
  by (simp add: mongo_columns_def fun_eq_iff show_msg_def split: option.split)

lemma mongo_columns_set_other:
  "mongo_servers w srv = Some s \<Longrightarrow> dflt \<noteq> Some dbn \<Longrightarrow>
   mongo_columns (set_collection srv s dbn coll docs w) srv dflt t = mongo_columns w srv dflt t"
  by (cases dflt) (auto simp: mongo_columns_def set_collection_def)

lemma mongo_columns_set_same:
  "mongo_servers w srv = Some s \<Longrightarrow>
   mongo_columns (set_collection srv s dbn coll (Some (d # ds)) w) srv (Some dbn) coll = Inr (map (VStr \<circ> fst) d)"
  by (simp add: mongo_columns_def set_collection_def)

lemma get_column_names_mongo_query:
  "fst (get_column_names X t (MongoConn srv dflt) w) =
    (case mongo_columns w srv dflt t of
       Inl e \<Rightarrow> if is_exception e then Inr [] else Inl e
     | Inr cs \<Rightarrow> Inr cs)"
  by (simp add: get_column_names_def column_query_def catch_exception_fst)

lemma connect_csv_mongo_app:
  assumes "\<not> py_truthy cs" "csv_path p" "read_csv_file X w (the p) = Inr df"
    "mongo_client (env X ''MONGO_URI'') = Inr (MongoConn srv dflt)" "mongo_servers w srv = Some s"
    "snd df \<noteq> []"
  shows "connect_to_database X ''MongoDB'' cs p w =
    (Inr (Some (MongoConn srv dflt)),
     show_msg (StSuccess ''CSV data loaded into MongoDB collection.'')
       ((set_collection srv s csv_mongo_db csv_table_name
           (Some (with_ids (next_oid w) (csv_records df))) w)\<lparr>next_oid := next_oid w + length (csv_records df)\<rparr>))"
proof -
  have r: "csv_records df \<noteq> []" using assms(6) by (simp add: csv_records_empty)
  have u: "mongo_csv_uri (app_cfg X) = env X ''MONGO_URI''" by (simp add: app_cfg_def)
  show ?thesis
    using load_csv_mongo_ok [OF assms(3) assms(4)[folded u] assms(5) r] assms(1,2)
    by (simp add: connect_to_database_def connect_with_mongo)
qed

text \<open>C19: In app.py the MongoDB CSV load writes into the database your_mongodb_database,
  but the introspector reads the default database of the client made from MONGO_URI:
  unless that URI names your_mongodb_database, the loaded rows are invisible to
  get_column_names, which reports for every table what it reported before the load.\<close>

theorem mongo_csv_load_invisible:
  assumes "\<not> py_truthy cs" "csv_path p" "read_csv_file X w (the p) = Inr df"
    "mongo_client (env X ''MONGO_URI'') = Inr (MongoConn srv dflt)" "mongo_servers w srv = Some s"
    "snd df \<noteq> []" "dflt \<noteq> Some csv_mongo_db"
  shows "\<exists>w'. connect_to_database X ''MongoDB'' cs p w = (Inr (Some (MongoConn srv dflt)), w') \<and>
    (\<forall>t. fst (get_column_names X t (MongoConn srv dflt) w') = fst (get_column_names X t (MongoConn srv dflt) w))"
  using connect_csv_mongo_app [OF assms(1-6)] mongo_columns_set_other [OF assms(5,7)]
  by (auto simp: get_column_names_mongo_query split: sum.split)

theorem mongo_csv_load_invisible_witness:
  "\<exists>w'. connect_to_database demo_ext ''MongoDB'' None (Some ''sales.csv'') demo_csv_world =
      (Inr (Some (MongoConn ''localhost:27017'' None)), w') \<and>
    (\<forall>t. fst (get_column_names demo_ext t (MongoConn ''localhost:27017'' None) w') =
         fst (get_column_names demo_ext t (MongoConn ''localhost:27017'' None) demo_csv_world))"
proof -
  have r: "read_csv_file demo_ext demo_csv_world (the (Some ''sales.csv'')) = Inr ([''a''], [[VInt 1]])"
    by (simp add: read_csv_file_def demo_csv_world_def demo_ext_def file_at_def norm_path_def)
  have m: "mongo_client (env demo_ext ''MONGO_URI'') = Inr (MongoConn ''localhost:27017'' None)"
    by (simp add: demo_ext_def mongo_client_def)
  have s: "mongo_servers demo_csv_world ''localhost:27017'' = Some Map.empty"
    by (simp add: demo_csv_world_def)
  have c: "csv_path (Some ''sales.csv'')" "\<not> py_truthy None"
    by (simp_all add: csv_path_def py_str_defs)
  show ?thesis
    by (rule mongo_csv_load_invisible [OF c(2) c(1) r m s]) simp_all
qed

text \<open>C20: When MONGO_URI does name your_mongodb_database, the columns of your_table_name
  after a MongoDB CSV load are _id followed by the CSV header.\<close>

theorem mongo_csv_load_columns:
  assumes "\<not> py_truthy cs" "csv_path p" "read_csv_file X w (the p) = Inr df"
    "mongo_client (env X ''MONGO_URI'') = Inr (MongoConn srv (Some csv_mongo_db))" "mongo_servers w srv = Some s"
    "snd df = r # rs" "length r = length (fst df)"
  shows "\<exists>w'. connect_to_database X ''MongoDB'' cs p w = (Inr (Some (MongoConn srv (Some csv_mongo_db))), w') \<and>
    fst (get_column_names X csv_table_name (MongoConn srv (Some csv_mongo_db)) w') = Inr (map VStr (''_id'' # fst df))"
proof -
  have ids: "with_ids n (csv_records df) = ((''_id'', VOid n) # zip (fst df) r) # with_ids (Suc n) (map (zip (fst df)) rs)" for n
    using assms(6) by (simp add: csv_records_def with_ids_Cons)
  have f: "map fst (zip (fst df) r) = fst df"
    using assms(7) by simp
  have keys: "map (\<lambda>x. VStr (fst x)) (zip (fst df) r) = map VStr (fst df)"
    using arg_cong [OF f, of "map VStr"] by (simp add: comp_def)
  show ?thesis
    using connect_csv_mongo_app [OF assms(1-5)] assms(6)
      mongo_columns_set_same [OF assms(5), of csv_mongo_db csv_table_name]
    by (simp add: get_column_names_mongo_query ids [of "next_oid w"] keys comp_def)
qed

theorem mongo_csv_load_columns_witness:
  "\<exists>w'. connect_to_database (demo_ext\<lparr>env := [''MONGO_URI'' \<mapsto> ''mongodb://localhost:27017/your_mongodb_database'']\<rparr>)
      ''MongoDB'' None (Some ''sales.csv'') demo_csv_world =
      (Inr (Some (MongoConn ''localhost:27017'' (Some csv_mongo_db))), w') \<and>
    fst (get_column_names (demo_ext\<lparr>env := [''MONGO_URI'' \<mapsto> ''mongodb://localhost:27017/your_mongodb_database'']\<rparr>)
      csv_table_name (MongoConn ''localhost:27017'' (Some csv_mongo_db)) w') = Inr (map VStr (''_id'' # [''a'']))"
proof -
  let ?X = "demo_ext\<lparr>env := [''MONGO_URI'' \<mapsto> ''mongodb://localhost:27017/your_mongodb_database'']\<rparr>"
  have r: "read_csv_file ?X demo_csv_world (the (Some ''sales.csv'')) = Inr ([''a''], [[VInt 1]])"
    by (simp add: read_csv_file_def demo_csv_world_def demo_ext_def file_at_def norm_path_def)
  have u: "mongo_client (Some ''mongodb://localhost:27017/your_mongodb_database'') =
      Inr (MongoConn ''localhost:27017'' (Some ''your_mongodb_database''))"
    by code_simp
  have m: "mongo_client (env ?X ''MONGO_URI'') = Inr (MongoConn ''localhost:27017'' (Some csv_mongo_db))"
    using u by (simp add: csv_mongo_db_def)
  have s: "mongo_servers demo_csv_world ''localhost:27017'' = Some Map.empty"
    by (simp add: demo_csv_world_def)
  have c: "csv_path (Some ''sales.csv'')" "\<not> py_truthy None"
    by (simp_all add: csv_path_def py_str_defs)
  have "\<exists>w'. connect_to_database ?X ''MongoDB'' None (Some ''sales.csv'') demo_csv_world =
      (Inr (Some (MongoConn ''localhost:27017'' (Some csv_mongo_db))), w') \<and>
    fst (get_column_names ?X csv_table_name (MongoConn ''localhost:27017'' (Some csv_mongo_db)) w') =
      Inr (map VStr (''_id'' # fst ([''a''], [[VInt 1]])))"
    by (rule mongo_csv_load_columns [OF c(2) c(1) r m s, of "[VInt 1]" "[]"]) simp_all
  then show ?thesis by simp
qed

end
